theory Spec2Isabelle
  imports Main
begin

section \<open>The dApp connection and approval protocol (lib/thanos/back/dapp.ts)\<close>

text \<open>
  A shallow embedding of \<^verbatim>\<open>src/lib/thanos/back/dapp.ts\<close>. JavaScript is single threaded
  and event driven: code runs without interruption until it awaits an input or output,
  and other events (an inbound intercom message, the auto-decline timer, the
  window-removed event) are handled while it waits. So the handler of a decision,
  which awaits the storage or the vault, is a task that is suspended at each such
  \<^verbatim>\<open>await\<close> and resumed by an event that delivers the outcome; everything between two
  suspension points is one transformer of an explicit state. A thrown exception or a
  rejected promise is the \<open>Inl\<close> of a sum; a promise that is handed to the caller and
  settled later is a field of the state.
  The collaborators that the arbiters call before a confirmation exists (the RPC
  client, the forger, the Micheline decoder, the address validator, the table of known
  networks) are parameters, collected in the record \<open>env\<close>; what the vault, the chain-id
  lookup and the ledger return to a suspended handler arrives with the event that
  resumes it, so it may differ from call to call.
\<close>

subsection \<open>Errors\<close>

text \<open>
  \<^verbatim>\<open>ThanosDAppErrorType\<close> is an enumeration of the dApp package; an \<^verbatim>\<open>Error\<close> carries
  either one of its codes or a free text. \<^verbatim>\<open>TezosOperationError\<close> is a subclass of
  \<^verbatim>\<open>Error\<close> that carries, besides its message, the node's error list (kept opaque).
  \<open>TypeError\<close> is what the runtime raises on a property read of \<^verbatim>\<open>null\<close> or \<^verbatim>\<open>undefined\<close>.
\<close>

datatype ThanosDAppErrorType = NotGranted | NotFound | InvalidParams | TezosOperation

datatype message = ErrorType ThanosDAppErrorType | Text string

datatype error =
    Error message
  | TezosOperationError message string
  | TypeError

subsection \<open>Data model\<close>

text \<open>\<^verbatim>\<open>ThanosDAppNetwork\<close>: a known network id (a string) or an inline \<^verbatim>\<open>{ name, rpc }\<close>.\<close>

datatype ThanosDAppNetwork = NetId string | NetCustom string string

text \<open>An entry of the \<^verbatim>\<open>NETWORKS\<close> table (lib/thanos/networks), with the fields that are read.\<close>

datatype ThanosNetwork = ThanosNetwork (nid: string) (rpcBaseURL: string) (disabled: bool)

record ThanosDAppMetadata =
  name :: string

record ThanosDAppSession =
  network :: ThanosDAppNetwork
  appMeta :: ThanosDAppMetadata
  pkh :: string
  publicKey :: string

type_synonym ThanosDAppSessions = "string \<rightharpoonup> ThanosDAppSession"

text \<open>
  Requests come from an untrusted page, so the fields that the validators probe with
  \<^verbatim>\<open>?.\<close> or \<^verbatim>\<open>typeof\<close> are optional: \<open>None\<close> is a missing field (for \<open>req_appMeta\<close>: a
  missing \<^verbatim>\<open>appMeta\<close> or one whose \<^verbatim>\<open>name\<close> is not a string). An element of \<^verbatim>\<open>opParams\<close>
  (declared \<^verbatim>\<open>any[]\<close>) is \<^verbatim>\<open>null\<close>/\<^verbatim>\<open>undefined\<close> (\<open>Nullish\<close>) or a value whose \<^verbatim>\<open>kind\<close> is a
  string (\<open>Some k\<close>) or anything else (\<open>None\<close>); the rest of the element is opaque.
\<close>

record ThanosDAppPermissionRequest =
  req_network :: "ThanosDAppNetwork option"
  req_appMeta :: "ThanosDAppMetadata option"
  force :: bool

datatype op_param = Nullish | OpParam "string option" string

record ThanosDAppOperationRequest =
  op_sourcePkh :: string
  opParams :: "op_param list option"

record ThanosDAppSignRequest =
  sign_sourcePkh :: string
  payload :: string

record ThanosDAppBroadcastRequest =
  signedOpBytes :: "string option"

datatype permission = Permission (perm_rpc: string) (perm_pkh: string) (perm_publicKey: string)

text \<open>The responses to the page; \<open>PermissionResponse rpc pkh publicKey\<close>.\<close>

datatype ThanosDAppResponse =
    GetCurrentPermissionResponse "permission option"
  | PermissionResponse string string string
  | OperationResponse string
  | SignResponse string
  | BroadcastResponse string

text \<open>What the vault returns for a submitted batch, and what the forger parses.\<close>

datatype op_result = OpResult (hash: string) (results: string)

datatype parsed_op = ParsedOp (branch: string) (contents: "string list")

text \<open>
  The preview of a sign request: the variable \<^verbatim>\<open>preview\<close> stays \<^verbatim>\<open>undefined\<close>, is set to
  \<^verbatim>\<open>null\<close> by the catch clause, or holds the Micheline text or the parsed operation.
\<close>

datatype preview = Undefined | Null | Micheline string | Parsed parsed_op

text \<open>
  \<^verbatim>\<open>ThanosDAppPayload\<close>, what the approval window fetches:
  \<open>ConnectPayload origin networkRpc appMeta\<close>,
  \<open>ConfirmOperationsPayload origin networkRpc appMeta sourcePkh sourcePublicKey opParams\<close>,
  \<open>SignPayload origin networkRpc appMeta sourcePkh payload preview\<close>.
\<close>

datatype ThanosDAppPayload =
    ConnectPayload string string ThanosDAppMetadata
  | ConfirmOperationsPayload string string ThanosDAppMetadata string string "op_param list"
  | SignPayload string string ThanosDAppMetadata string string preview

text \<open>
  The intercom requests that the listener of a confirmation tells apart:
  \<open>DAppGetPayloadRequest id\<close>,
  \<open>DAppPermConfirmationRequest id confirmed accountPublicKeyHash accountPublicKey\<close>,
  \<open>DAppOpsConfirmationRequest id confirmed\<close>, \<open>DAppSignConfirmationRequest id confirmed\<close>;
  every other request (also \<^verbatim>\<open>null\<close>) is \<open>OtherRequest\<close>.
\<close>

datatype ThanosRequest =
    DAppGetPayloadRequest string
  | DAppPermConfirmationRequest string bool "string option" "string option"
  | DAppOpsConfirmationRequest string bool
  | DAppSignConfirmationRequest string bool
  | OtherRequest

datatype ThanosResponse =
    DAppGetPayloadResponse ThanosDAppPayload
  | DAppPermConfirmationResponse
  | DAppOpsConfirmationResponse
  | DAppSignConfirmationResponse

subsection \<open>The world outside a confirmation\<close>

text \<open>
  A promise is pending or settled, and settling a settled promise does nothing.
\<close>

datatype 'a promise = Pending | Resolved 'a | Rejected error

definition resolve :: "'a \<Rightarrow> 'a promise \<Rightarrow> 'a promise" where
  "resolve r p = (case p of Pending \<Rightarrow> Resolved r | Resolved x \<Rightarrow> Resolved x | Rejected e \<Rightarrow> Rejected e)"

definition reject :: "error \<Rightarrow> 'a promise \<Rightarrow> 'a promise" where
  "reject e p = (case p of Pending \<Rightarrow> Rejected e | Resolved x \<Rightarrow> Resolved x | Rejected x \<Rightarrow> Rejected x)"

text \<open>
  The effects on the outside, in the order they happen: reads and writes of the stored
  document, the approval window and its timer, calls of the vault, of the node and of
  the pending-operation ledger, and an exception that escapes the \<^verbatim>\<open>async\<close> executor of
  \<^verbatim>\<open>new Promise\<close> (it settles nothing).
\<close>

datatype effect =
    StorageGet
  | StorageSet
  | RemoveDAppPublicKey string
  | WindowsCreate string
  | SetTimeout nat
  | VaultSendOperations string string "op_param list"
  | VaultSign string string
  | LoadChainId string
  | PndOpsAppend string string string
  | InjectOperation string string
  | UnhandledRejection error

text \<open>
  \<open>storage\<close> is the value under \<^verbatim>\<open>STORAGE_KEY\<close> in \<^verbatim>\<open>browser.storage.local\<close> (\<open>None\<close>: the key
  was never written); \<open>promise\<close> is the promise that the arbiter in flight returned to
  its caller; \<open>log\<close> is the trace of effects.
\<close>

record world =
  storage :: "ThanosDAppSessions option"
  promise :: "ThanosDAppResponse promise"
  log :: "effect list"

definition emit :: "effect \<Rightarrow> world \<Rightarrow> world" where
  "emit e w = w\<lparr>log := log w @ [e]\<rparr>"

definition throw :: "error \<Rightarrow> world \<Rightarrow> world" where
  "throw e w = w\<lparr>promise := Rejected e\<rparr>"

text \<open>The collaborators. A call that throws returns \<open>Inl\<close>.\<close>

record env =
  NETWORKS :: "ThanosNetwork list"
  isAddressValid :: "string \<Rightarrow> bool"
  injectOperation :: "string \<Rightarrow> string \<Rightarrow> error + string"
  emitMicheline :: "string \<Rightarrow> error + string"
  parse :: "string \<Rightarrow> error + parsed_op"

definition AUTODECLINE_AFTER :: nat where
  "AUTODECLINE_AFTER = 120000"

subsection \<open>Session store\<close>

text \<open>\<^verbatim>\<open>(...)[STORAGE_KEY] || {}\<close>: the stored document, or the empty one.\<close>

definition stored :: "world \<Rightarrow> ThanosDAppSessions" where
  "stored w = (case storage w of None \<Rightarrow> Map.empty | Some m \<Rightarrow> m)"

definition getAllDApps :: "world \<Rightarrow> ThanosDAppSessions \<times> world" where
  "getAllDApps w = (stored w, emit StorageGet w)"

definition getDApp :: "string \<Rightarrow> world \<Rightarrow> ThanosDAppSession option \<times> world" where
  "getDApp origin w = (case getAllDApps w of (all, w1) \<Rightarrow> (all origin, w1))"

definition setDApps :: "ThanosDAppSessions \<Rightarrow> world \<Rightarrow> world" where
  "setDApps newDApps w = emit StorageSet (w\<lparr>storage := Some newDApps\<rparr>)"

definition setDApp :: "string \<Rightarrow> ThanosDAppSession \<Rightarrow> world \<Rightarrow> ThanosDAppSessions \<times> world" where
  "setDApp origin permissions w =
     (case getAllDApps w of (current, w1) \<Rightarrow>
        (current(origin \<mapsto> permissions), setDApps (current(origin \<mapsto> permissions)) w1))"

definition removeDApp :: "string \<Rightarrow> world \<Rightarrow> ThanosDAppSessions \<times> world" where
  "removeDApp origin w =
     (case getAllDApps w of (current, w1) \<Rightarrow>
        (current(origin := None),
         emit (RemoveDAppPublicKey origin) (setDApps (current(origin := None)) w1)))"

definition cleanDApps :: "world \<Rightarrow> world" where
  "cleanDApps w = setDApps Map.empty w"

subsection \<open>Suspended handlers\<close>

text \<open>
  A handler that has been called is a task: it has returned (\<open>Done\<close>, with what it
  returned or threw), or it waits at an \<^verbatim>\<open>await\<close> for the storage to be read or written,
  for the vault to submit operations or to sign, for the chain id, or for the ledger
  to append; the last argument is the rest of the handler, which takes the outcome (if
  there is one) and the world as it is when the outcome arrives.
  \<open>AwaitStorageSet newDApps\<close>, \<open>AwaitSendOperations pkh rpc opParams\<close>,
  \<open>AwaitLoadChainId rpc\<close>, \<open>AwaitPndOpsAppend pkh chainId hash\<close>, \<open>AwaitSign pkh payload\<close>.
\<close>

datatype task =
    Done "error + ThanosResponse option"
  | AwaitStorageGet "ThanosDAppSessions \<Rightarrow> world \<Rightarrow> task \<times> world"
  | AwaitStorageSet ThanosDAppSessions "world \<Rightarrow> task \<times> world"
  | AwaitSendOperations string string "op_param list" "error + op_result \<Rightarrow> world \<Rightarrow> task \<times> world"
  | AwaitLoadChainId string "error + string \<Rightarrow> world \<Rightarrow> task \<times> world"
  | AwaitPndOpsAppend string string string "error + unit \<Rightarrow> world \<Rightarrow> task \<times> world"
  | AwaitSign string string "error + string \<Rightarrow> world \<Rightarrow> task \<times> world"

text \<open>The outcomes that the platform delivers to a waiting task.\<close>

datatype completion =
    StorageGetDone
  | StorageSetDone
  | SendOperationsDone "error + op_result"
  | LoadChainIdDone "error + string"
  | PndOpsAppendDone "error + unit"
  | SignDone "error + string"

text \<open>
  Resuming a task with the outcome it waits for: the stored document is read, and a
  write is applied, when its completion is delivered. An outcome that the task does
  not wait for is not delivered to it.
\<close>

fun resume :: "task \<Rightarrow> completion \<Rightarrow> world \<Rightarrow> (task \<times> world) option" where
  "resume (AwaitStorageGet k) StorageGetDone w = Some (k (stored w) (emit StorageGet w))"
| "resume (AwaitStorageSet newDApps k) StorageSetDone w = Some (k (setDApps newDApps w))"
| "resume (AwaitSendOperations pkh' rpc ops k) (SendOperationsDone res) w = Some (k res w)"
| "resume (AwaitLoadChainId rpc k) (LoadChainIdDone res) w = Some (k res w)"
| "resume (AwaitPndOpsAppend pkh' chainId h k) (PndOpsAppendDone res) w = Some (k res w)"
| "resume (AwaitSign pkh' bytes k) (SignDone res) w = Some (k res w)"
| "resume t res w = None"

text \<open>Whether a task has returned a result, that is, a truthy value.\<close>

fun returned :: "task \<Rightarrow> bool" where
  "returned (Done (Inr (Some result))) = True"
| "returned t = False"

fun waiting :: "task \<Rightarrow> bool" where
  "waiting (Done x) = False"
| "waiting t = True"

text \<open>
  \<^verbatim>\<open>setDApp\<close> as a handler awaits it: the read and the write are two suspension points,
  and the document written is built from the one that was read. \<open>k\<close> is what the
  caller does with the returned document.
\<close>

definition setDApp_task ::
  "string \<Rightarrow> ThanosDAppSession \<Rightarrow> (ThanosDAppSessions \<Rightarrow> world \<Rightarrow> task \<times> world) \<Rightarrow> task" where
  "setDApp_task origin permissions k =
     AwaitStorageGet (\<lambda>current w.
       (AwaitStorageSet (current(origin \<mapsto> permissions)) (k (current(origin \<mapsto> permissions))), w))"

subsection \<open>Networks\<close>

text \<open>
  \<^verbatim>\<open>NETWORKS.find((n) => n.id === net)!.rpcBaseURL\<close>: the non-null assertion is erased by
  the compiler, so a miss reads a property of \<^verbatim>\<open>undefined\<close>.
\<close>

fun getNetworkRPC :: "ThanosNetwork list \<Rightarrow> ThanosDAppNetwork \<Rightarrow> error + string" where
  "getNetworkRPC nets (NetId net) =
     (case find (\<lambda>n. nid n = net) nets of
        None \<Rightarrow> Inl TypeError
      | Some n \<Rightarrow> Inr (rpcBaseURL n))"
| "getNetworkRPC nets (NetCustom nm rpc) = Inr rpc"

fun isAllowedNetwork :: "ThanosNetwork list \<Rightarrow> ThanosDAppNetwork option \<Rightarrow> bool" where
  "isAllowedNetwork nets (Some (NetId net)) = list_ex (\<lambda>n. \<not> disabled n \<and> nid n = net) nets"
| "isAllowedNetwork nets (Some (NetCustom nm rpc)) = (rpc \<noteq> [])"
| "isAllowedNetwork nets None = False"

fun is_string :: "ThanosDAppNetwork \<Rightarrow> bool" where
  "is_string (NetId net) = True"
| "is_string (NetCustom nm rpc) = False"

fun rpc_of :: "ThanosDAppNetwork \<Rightarrow> string option" where
  "rpc_of (NetId net) = None"
| "rpc_of (NetCustom nm rpc) = Some rpc"

text \<open>
  \<^verbatim>\<open>===\<close> on a string and an object is false, and on two strings it compares them; the
  branch that would compare two objects by identity is never taken.
\<close>

definition isNetworkEquals :: "ThanosDAppNetwork \<Rightarrow> ThanosDAppNetwork \<Rightarrow> bool" where
  "isNetworkEquals fNet sNet =
     (if \<not> is_string fNet \<and> \<not> is_string sNet then rpc_of fNet = rpc_of sNet
      else fNet = sNet)"

subsection \<open>getCurrentPermission\<close>

definition getCurrentPermission :: "env \<Rightarrow> string \<Rightarrow> world \<Rightarrow> (error + ThanosDAppResponse) \<times> world" where
  "getCurrentPermission env origin w =
     (case getDApp origin w of (dApp, w1) \<Rightarrow>
        (case dApp of
           None \<Rightarrow> (Inr (GetCurrentPermissionResponse None), w1)
         | Some d \<Rightarrow>
             (case getNetworkRPC (NETWORKS env) (network d) of
                Inl e \<Rightarrow> (Inl e, w1)
              | Inr r \<Rightarrow>
                  (Inr (GetCurrentPermissionResponse (Some (Permission r (pkh d) (publicKey d)))), w1))))"

subsection \<open>requestConfirm: the state of one pending confirmation\<close>

text \<open>
  The variables that the closures of one \<^verbatim>\<open>requestConfirm\<close> call share: its parameters
  (the correlation \<open>cid\<close>, the \<open>cpayload\<close> it serves, and the arbiter's two callbacks
  \<open>onDecline\<close> and \<open>handleIntercomRequest\<close>), the guard \<open>closing\<close>, the bound \<open>knownPort\<close>, whether
  the timer is still pending and the two listeners still attached, the id of the created
  window (\<open>None\<close> when the browser gave none) and whether that window still exists.
  \<open>teardown\<close> records, in order, the calls that \<^verbatim>\<open>close\<close> makes. \<open>inflight\<close> holds the
  calls of the handler that were suspended, in the order they were made, each in its
  current state (a call that has since returned stays, as \<open>Done\<close>). A channel is a value
  of the type parameter.
\<close>

datatype teardown_call = StopTimeout | StopRequestListening | StopWinRemovedListening | CloseWindow

type_synonym decline = "world \<Rightarrow> world"

type_synonym handler = "ThanosRequest \<Rightarrow> decline \<Rightarrow> world \<Rightarrow> task \<times> world"

record 'p confirmation =
  cid :: string
  cpayload :: ThanosDAppPayload
  onDecline :: decline
  handleIntercomRequest :: handler
  closing :: bool
  knownPort :: "'p option"
  timer :: bool
  requestListening :: bool
  winRemovedListening :: bool
  confirmWin :: "nat option"
  windowExists :: bool
  teardown :: "teardown_call list"
  inflight :: "task list"

definition called :: "teardown_call \<Rightarrow> 'p confirmation \<Rightarrow> 'p confirmation" where
  "called t c = c\<lparr>teardown := teardown c @ [t]\<rparr>"

definition stopTimeout :: "'p confirmation \<Rightarrow> 'p confirmation" where
  "stopTimeout c = called StopTimeout (c\<lparr>timer := False\<rparr>)"

definition stopRequestListening :: "'p confirmation \<Rightarrow> 'p confirmation" where
  "stopRequestListening c = called StopRequestListening (c\<lparr>requestListening := False\<rparr>)"

definition stopWinRemovedListening :: "'p confirmation \<Rightarrow> 'p confirmation" where
  "stopWinRemovedListening c = called StopWinRemovedListening (c\<lparr>winRemovedListening := False\<rparr>)"

text \<open>
  \<^verbatim>\<open>closeWindow\<close>: nothing when \<^verbatim>\<open>confirmWin.id\<close> is falsy (absent or 0);
  \<^verbatim>\<open>browser.windows.get\<close> rejects when the window is gone; otherwise the window is removed.
\<close>

definition closeWindow :: "'p confirmation \<Rightarrow> error + 'p confirmation" where
  "closeWindow c =
     (case confirmWin c of
        None \<Rightarrow> Inr (called CloseWindow c)
      | Some i \<Rightarrow>
          if i = 0 then Inr (called CloseWindow c)
          else if windowExists c then Inr ((called CloseWindow c)\<lparr>windowExists := False\<rparr>)
          else Inl (Error (Text ''No window with id'')))"

text \<open>\<^verbatim>\<open>close\<close>: guarded by \<open>closing\<close>; what \<^verbatim>\<open>closeWindow\<close> throws is swallowed.\<close>

definition close :: "'p confirmation \<Rightarrow> 'p confirmation" where
  "close c =
     (if closing c then c
      else
        (case closeWindow (stopWinRemovedListening (stopRequestListening (stopTimeout (c\<lparr>closing := True\<rparr>)))) of
           Inl err \<Rightarrow> called CloseWindow (stopWinRemovedListening (stopRequestListening (stopTimeout (c\<lparr>closing := True\<rparr>))))
         | Inr c' \<Rightarrow> c'))"

definition declineAndClose :: "'p confirmation \<times> world \<Rightarrow> 'p confirmation \<times> world" where
  "declineAndClose s = (case s of (c, w) \<Rightarrow> (close c, onDecline c w))"

text \<open>
  The listener given to \<^verbatim>\<open>intercom.onRequest\<close>, up to the point where it returns or is
  suspended in \<^verbatim>\<open>await handleIntercomRequest(req, onDecline)\<close>. Its first result is what
  it returns to the sender: \<open>None\<close> while it is suspended, \<open>Some (Inr None)\<close> for
  \<^verbatim>\<open>undefined\<close>, \<open>Some (Inl err)\<close> when its promise rejects. A handler that returns
  without waiting is followed at once by the rest of the listener.
\<close>

definition onRequest ::
  "ThanosRequest \<Rightarrow> 'p \<Rightarrow> 'p confirmation \<times> world \<Rightarrow>
     (error + ThanosResponse option) option \<times> 'p confirmation \<times> world" where
  "onRequest req port s =
     (case s of (c, w) \<Rightarrow>
        if req = DAppGetPayloadRequest (cid c)
        then (Some (Inr (Some (DAppGetPayloadResponse (cpayload c)))), c\<lparr>knownPort := Some port\<rparr>, w)
        else if knownPort c \<noteq> Some port then (Some (Inr None), c, w)
        else
          (case handleIntercomRequest c req (onDecline c) w of
             (Done (Inl err), w1) \<Rightarrow> (Some (Inl err), c, w1)
           | (Done (Inr None), w1) \<Rightarrow> (Some (Inr None), c, w1)
           | (Done (Inr (Some result)), w1) \<Rightarrow> (Some (Inr (Some result)), close c, w1)
           | (t, w1) \<Rightarrow> (None, c\<lparr>inflight := inflight c @ [t]\<rparr>, w1)))"

text \<open>
  The rest of the listener, when the handler call in slot \<open>n\<close> of \<open>inflight\<close> has been
  resumed and is now \<open>t\<close>: \<^verbatim>\<open>if (result) { close(); return result; }\<close>. This runs also
  when the listener has been detached in the meantime.
\<close>

definition resumed :: "nat \<Rightarrow> task \<times> world \<Rightarrow> 'p confirmation \<Rightarrow> 'p confirmation \<times> world" where
  "resumed n tw c =
     (case tw of (t, w1) \<Rightarrow>
        if returned t then (close (c\<lparr>inflight := (inflight c)[n := t]\<rparr>), w1)
        else (c\<lparr>inflight := (inflight c)[n := t]\<rparr>, w1))"

definition slot :: "'p confirmation \<Rightarrow> nat \<Rightarrow> task option" where
  "slot c n = (if n < length (inflight c) then Some (inflight c ! n) else None)"

definition handleWinRemoved :: "nat \<Rightarrow> 'p confirmation \<times> world \<Rightarrow> 'p confirmation \<times> world" where
  "handleWinRemoved winId s =
     (case s of (c, w) \<Rightarrow>
        if Some winId = confirmWin c then declineAndClose (c, w) else (c, w))"

text \<open>
  \<^verbatim>\<open>requestConfirm\<close> attaches the request listener, creates the window (the browser
  assigns \<open>winId\<close>), attaches the window-removed listener and arms the timer. This
  set-up is one step: the id is fresh and reaches the approval window only through
  the address of the window created here, so no request that carries it arrives in
  between. The storage calls and the window calls of the browser are taken to
  succeed, and the geometry of the window is left out.
\<close>

definition requestConfirm ::
  "string \<Rightarrow> ThanosDAppPayload \<Rightarrow> decline \<Rightarrow> handler \<Rightarrow> nat option \<Rightarrow> world \<Rightarrow>
     'p confirmation \<times> world" where
  "requestConfirm id' payload' onDecline' handleIntercomRequest' winId w =
     (\<lparr>cid = id', cpayload = payload', onDecline = onDecline',
       handleIntercomRequest = handleIntercomRequest',
       closing = False, knownPort = None, timer = True,
       requestListening = True, winRemovedListening = True, confirmWin = winId,
       windowExists = True, teardown = [], inflight = []\<rparr>,
      emit (SetTimeout AUTODECLINE_AFTER) (emit (WindowsCreate id') w))"

subsection \<open>Events of a pending confirmation\<close>

text \<open>
  What can happen to a pending confirmation: a request arrives on a channel, the timer
  fires, the browser reports that a window was removed, the outcome that the handler
  call in some slot waits for arrives, and (to count invocations) a further call of
  \<^verbatim>\<open>close\<close>. Delivery is the platform's: the intercom calls the listener with each
  inbound request and the channel it arrived on until the listener is detached, a
  cleared timer does not fire, and a detached window listener is not called.
\<close>

datatype 'p event =
    Request ThanosRequest 'p
  | TimerFired
  | WindowRemoved nat
  | CloseInvoked
  | Completed nat completion

fun step :: "'p confirmation \<times> world \<Rightarrow> 'p event \<Rightarrow> 'p confirmation \<times> world" where
  "step (c, w) (Request req port) =
     (if requestListening c then snd (onRequest req port (c, w)) else (c, w))"
| "step (c, w) TimerFired =
     (if timer c then declineAndClose (c\<lparr>timer := False\<rparr>, w) else (c, w))"
| "step (c, w) (WindowRemoved winId) =
     (if winRemovedListening c
      then handleWinRemoved winId ((if Some winId = confirmWin c then c\<lparr>windowExists := False\<rparr> else c), w)
      else ((if Some winId = confirmWin c then c\<lparr>windowExists := False\<rparr> else c), w))"
| "step (c, w) CloseInvoked = (close c, w)"
| "step (c, w) (Completed n res) =
     (case slot c n of
        None \<Rightarrow> (c, w)
      | Some t \<Rightarrow>
          (case resume t res w of
             None \<Rightarrow> (c, w)
           | Some tw \<Rightarrow> resumed n tw c))"

fun completes :: "nat \<Rightarrow> 'p event \<Rightarrow> bool" where
  "completes n (Completed m res) = (m = n)"
| "completes n ev = False"

definition run :: "'p event list \<Rightarrow> 'p confirmation \<times> world \<Rightarrow> 'p confirmation \<times> world" where
  "run evs s = foldl step s evs"

subsection \<open>The arbiters\<close>

text \<open>
  Each arbiter takes the \<open>id'\<close> that \<^verbatim>\<open>nanoid()\<close> would draw and the \<open>winId\<close> that the
  browser would assign, and returns the confirmation it opened, if any, and the world,
  whose \<open>promise\<close> is the promise the caller holds. What an arbiter does before the
  confirmation is open is one step: no event of that confirmation can occur yet. All three pass the same \<^verbatim>\<open>onDecline\<close>,
  which rejects that promise with \<^verbatim>\<open>NotGranted\<close>.
\<close>

definition decline_NotGranted :: decline where
  "decline_NotGranted w = w\<lparr>promise := reject (Error (ErrorType NotGranted)) (promise w)\<rparr>"

subsubsection \<open>requestPermission\<close>

fun permission_handleIntercomRequest ::
  "string \<Rightarrow> string \<Rightarrow> ThanosDAppNetwork \<Rightarrow> ThanosDAppMetadata \<Rightarrow> string \<Rightarrow> handler" where
  "permission_handleIntercomRequest origin id' net meta networkRpc
       (DAppPermConfirmationRequest i confirmed (Some accountPublicKeyHash) (Some accountPublicKey))
       decline' w =
     (if i = id' then
        (if confirmed \<and> accountPublicKeyHash \<noteq> [] \<and> accountPublicKey \<noteq> [] then
           (setDApp_task origin
              \<lparr>network = net, appMeta = meta, pkh = accountPublicKeyHash,
               publicKey = accountPublicKey\<rparr>
              (\<lambda>newDApps w1.
                 (Done (Inr (Some DAppPermConfirmationResponse)),
                  w1\<lparr>promise :=
                       resolve (PermissionResponse networkRpc accountPublicKeyHash accountPublicKey)
                         (promise w1)\<rparr>)),
            w)
         else (Done (Inr (Some DAppPermConfirmationResponse)), decline' w))
      else (Done (Inr None), w))"
| "permission_handleIntercomRequest origin id' net meta networkRpc
       (DAppPermConfirmationRequest i confirmed accountPublicKeyHash accountPublicKey) decline' w =
     (if i = id' then (Done (Inr (Some DAppPermConfirmationResponse)), decline' w)
      else (Done (Inr None), w))"
| "permission_handleIntercomRequest origin id' net meta networkRpc confirmReq decline' w =
     (Done (Inr None), w)"

definition requestPermission ::
  "env \<Rightarrow> string \<Rightarrow> ThanosDAppPermissionRequest \<Rightarrow> string \<Rightarrow> nat option \<Rightarrow> world \<Rightarrow>
     'p confirmation option \<times> world" where
  "requestPermission env origin req id' winId w =
     (if \<not> (isAllowedNetwork (NETWORKS env) (req_network req) \<and> req_appMeta req \<noteq> None)
      then (None, throw (Error (ErrorType InvalidParams)) w)
      else
        (case (req_network req, req_appMeta req) of
           (Some net, Some meta) \<Rightarrow>
             (case getNetworkRPC (NETWORKS env) net of
                Inl e \<Rightarrow> (None, throw e w)
              | Inr networkRpc \<Rightarrow>
                  (case getDApp origin w of (dApp, w1) \<Rightarrow>
                     (case dApp of
                        Some d \<Rightarrow>
                          if \<not> force req \<and> isNetworkEquals net (network d) \<and>
                             name meta = name (appMeta d)
                          then (None, w1\<lparr>promise := Resolved (PermissionResponse networkRpc (pkh d) (publicKey d))\<rparr>)
                          else (case requestConfirm id' (ConnectPayload origin networkRpc meta)
                                       decline_NotGranted
                                       (permission_handleIntercomRequest origin id' net meta networkRpc)
                                       winId (w1\<lparr>promise := Pending\<rparr>) of
                                  (c, w2) \<Rightarrow> (Some c, w2))
                      | None \<Rightarrow>
                          (case requestConfirm id' (ConnectPayload origin networkRpc meta)
                                  decline_NotGranted
                                  (permission_handleIntercomRequest origin id' net meta networkRpc)
                                  winId (w1\<lparr>promise := Pending\<rparr>) of
                             (c, w2) \<Rightarrow> (Some c, w2)))))
         | (_, _) \<Rightarrow> (None, throw (Error (ErrorType InvalidParams)) w)))"

subsubsection \<open>requestOperation\<close>

text \<open>
  \<^verbatim>\<open>opParams.every((op) => typeof op.kind === "string")\<close> stops at the first element
  whose test is false, and reading \<^verbatim>\<open>kind\<close> of \<^verbatim>\<open>null\<close> or \<^verbatim>\<open>undefined\<close> throws.
\<close>

fun every_kind_string :: "op_param list \<Rightarrow> error + bool" where
  "every_kind_string [] = Inr True"
| "every_kind_string (Nullish # ops) = Inl TypeError"
| "every_kind_string (OpParam None body # ops) = Inr False"
| "every_kind_string (OpParam (Some k) body # ops) = every_kind_string ops"

text \<open>
  The three tests are the elements of an array literal, so all are evaluated (the
  third may throw) before \<^verbatim>\<open>.every(Boolean)\<close> looks at them.
\<close>

definition operation_valid :: "env \<Rightarrow> ThanosDAppOperationRequest \<Rightarrow> error + bool" where
  "operation_valid env req =
     (case opParams req of
        None \<Rightarrow> Inr False
      | Some ops \<Rightarrow>
          (case every_kind_string ops of
             Inl e \<Rightarrow> Inl e
           | Inr b \<Rightarrow> Inr (isAddressValid env (op_sourcePkh req) \<and> 0 < length ops \<and> b)))"

text \<open>
  The handler of the decision, from its end to its start. It resolves with the hash
  of the submitted operation whatever became of the ledger entry, which is best
  effort: the chain id is looked up and, if that succeeds, the entry is appended, and
  whatever fails there is swallowed.
\<close>

definition operation_resolve :: "op_result \<Rightarrow> world \<Rightarrow> task \<times> world" where
  "operation_resolve op w =
     (Done (Inr (Some DAppOpsConfirmationResponse)),
      w\<lparr>promise := resolve (OperationResponse (hash op)) (promise w)\<rparr>)"

definition operation_after_chainId ::
  "ThanosDAppSession \<Rightarrow> op_result \<Rightarrow> error + string \<Rightarrow> world \<Rightarrow> task \<times> world" where
  "operation_after_chainId dApp op res w =
     (case res of
        Inl e \<Rightarrow> operation_resolve op w
      | Inr chainId \<Rightarrow>
          (AwaitPndOpsAppend (pkh dApp) chainId (hash op) (\<lambda>appended. operation_resolve op),
           emit (PndOpsAppend (pkh dApp) chainId (hash op)) w))"

text \<open>The \<^verbatim>\<open>try\<close> around the submission, and its \<^verbatim>\<open>catch\<close>.\<close>

definition operation_after_send ::
  "ThanosDAppSession \<Rightarrow> string \<Rightarrow> error + op_result \<Rightarrow> world \<Rightarrow> task \<times> world" where
  "operation_after_send dApp networkRpc res w =
     (case res of
        Inr op \<Rightarrow>
          (AwaitLoadChainId networkRpc (operation_after_chainId dApp op),
           emit (LoadChainId networkRpc) w)
      | Inl (TezosOperationError m errs) \<Rightarrow>
          (Done (Inr (Some DAppOpsConfirmationResponse)),
           w\<lparr>promise := reject (TezosOperationError (ErrorType TezosOperation) errs) (promise w)\<rparr>)
      | Inl err \<Rightarrow> (Done (Inl err), w))"

fun operation_handleIntercomRequest ::
  "string \<Rightarrow> ThanosDAppSession \<Rightarrow> string \<Rightarrow> op_param list \<Rightarrow> handler" where
  "operation_handleIntercomRequest id' dApp networkRpc ops
       (DAppOpsConfirmationRequest i confirmed) decline' w =
     (if i = id' then
        (if confirmed then
           (AwaitSendOperations (pkh dApp) networkRpc ops (operation_after_send dApp networkRpc),
            emit (VaultSendOperations (pkh dApp) networkRpc ops) w)
         else (Done (Inr (Some DAppOpsConfirmationResponse)), decline' w))
      else (Done (Inr None), w))"
| "operation_handleIntercomRequest id' dApp networkRpc ops confirmReq decline' w =
     (Done (Inr None), w)"

definition requestOperation ::
  "env \<Rightarrow> string \<Rightarrow> ThanosDAppOperationRequest \<Rightarrow> string \<Rightarrow> nat option \<Rightarrow> world \<Rightarrow>
     'p confirmation option \<times> world" where
  "requestOperation env origin req id' winId w =
     (case (operation_valid env req, opParams req) of
        (Inl e, _) \<Rightarrow> (None, throw e w)
      | (Inr True, Some ops) \<Rightarrow>
          (case getDApp origin w of (dApp, w1) \<Rightarrow>
             (case dApp of
                None \<Rightarrow> (None, throw (Error (ErrorType NotGranted)) w1)
              | Some d \<Rightarrow>
                  if op_sourcePkh req \<noteq> pkh d then (None, throw (Error (ErrorType NotFound)) w1)
                  else
                    (case getNetworkRPC (NETWORKS env) (network d) of
                       Inl e \<Rightarrow> (None, emit (UnhandledRejection e) (w1\<lparr>promise := Pending\<rparr>))
                     | Inr networkRpc \<Rightarrow>
                         (case requestConfirm id'
                                 (ConfirmOperationsPayload origin networkRpc (appMeta d)
                                    (op_sourcePkh req) (publicKey d) ops)
                                 decline_NotGranted
                                 (operation_handleIntercomRequest id' d networkRpc ops)
                                 winId (w1\<lparr>promise := Pending\<rparr>) of
                            (c, w2) \<Rightarrow> (Some c, w2)))))
      | (_, _) \<Rightarrow> (None, throw (Error (ErrorType InvalidParams)) w))"

subsubsection \<open>requestSign\<close>

definition hexdigit :: "char \<Rightarrow> bool" where
  "hexdigit ch = (ch \<in> set ''0123456789abcdefABCDEF'')"

definition lower_hexdigit :: "char \<Rightarrow> bool" where
  "lower_hexdigit ch = (ch \<in> set ''abcdef0123456789'')"

text \<open>\<^verbatim>\<open>/^[0-9a-fA-F]+$/\<close>\<close>

definition HEX_PATTERN :: "string \<Rightarrow> bool" where
  "HEX_PATTERN s = (s \<noteq> [] \<and> list_all hexdigit s)"

text \<open>
  \<^verbatim>\<open>/^0501[a-f0-9]{8}54657a6f73205369676e6564204d6573736167653a20[a-f0-9]*$/\<close>: four fixed
  characters, eight lower-case hex digits, the 44 characters that spell
  "Tezos Signed Message: " in hex, and lower-case hex digits to the end.
\<close>

definition TEZ_MSG_SIGN_PATTERN :: "string \<Rightarrow> bool" where
  "TEZ_MSG_SIGN_PATTERN s =
     (take 4 s = ''0501'' \<and>
      length (take 8 (drop 4 s)) = 8 \<and> list_all lower_hexdigit (take 8 (drop 4 s)) \<and>
      take 44 (drop 12 s) = ''54657a6f73205369676e6564204d6573736167653a20'' \<and>
      list_all lower_hexdigit (drop 56 s))"

text \<open>\<^verbatim>\<open>s.slice(1, -1)\<close>: \<open>s\<close> without its first and its last character.\<close>

definition slice_1_m1 :: "string \<Rightarrow> string" where
  "slice_1_m1 s = butlast (tl s)"

text \<open>
  The preview, as the \<^verbatim>\<open>try\<close> block computes it. \<open>emitMicheline env\<close> stands for
  \<^verbatim>\<open>emitMicheline(valueDecoder(Uint8ArrayConsumer.fromHexString(_)), ...)\<close> and \<open>parse env\<close>
  for \<^verbatim>\<open>localForger.parse\<close>.
\<close>

definition build_preview :: "env \<Rightarrow> string \<Rightarrow> preview" where
  "build_preview env payload' =
     (if TEZ_MSG_SIGN_PATTERN payload' then
        (case emitMicheline env (drop 2 payload') of
           Inl e \<Rightarrow> Null
         | Inr text' \<Rightarrow> Micheline (slice_1_m1 text'))
      else
        (case parse env payload' of
           Inl e \<Rightarrow> Null
         | Inr parsed \<Rightarrow> if 0 < length (contents parsed) then Parsed parsed else Undefined))"

definition strip_0x :: "ThanosDAppSignRequest \<Rightarrow> ThanosDAppSignRequest" where
  "strip_0x req = (if take 2 (payload req) = ''0x'' then req\<lparr>payload := drop 2 (payload req)\<rparr> else req)"

definition sign_after :: "error + string \<Rightarrow> world \<Rightarrow> task \<times> world" where
  "sign_after res w =
     (case res of
        Inl err \<Rightarrow> (Done (Inl err), w)
      | Inr signature \<Rightarrow>
          (Done (Inr (Some DAppSignConfirmationResponse)),
           w\<lparr>promise := resolve (SignResponse signature) (promise w)\<rparr>))"

fun sign_handleIntercomRequest :: "string \<Rightarrow> ThanosDAppSession \<Rightarrow> string \<Rightarrow> handler" where
  "sign_handleIntercomRequest id' dApp payload'
       (DAppSignConfirmationRequest i confirmed) decline' w =
     (if i = id' then
        (if confirmed then
           (AwaitSign (pkh dApp) payload' sign_after, emit (VaultSign (pkh dApp) payload') w)
         else (Done (Inr (Some DAppSignConfirmationResponse)), decline' w))
      else (Done (Inr None), w))"
| "sign_handleIntercomRequest id' dApp payload' confirmReq decline' w = (Done (Inr None), w)"

definition requestSign ::
  "env \<Rightarrow> string \<Rightarrow> ThanosDAppSignRequest \<Rightarrow> string \<Rightarrow> nat option \<Rightarrow> world \<Rightarrow>
     'p confirmation option \<times> world" where
  "requestSign env origin req0 id' winId w =
     (case strip_0x req0 of req \<Rightarrow>
        if \<not> (isAddressValid env (sign_sourcePkh req) \<and> HEX_PATTERN (payload req))
        then (None, throw (Error (ErrorType InvalidParams)) w)
        else
          (case getDApp origin w of (dApp, w1) \<Rightarrow>
             (case dApp of
                None \<Rightarrow> (None, throw (Error (ErrorType NotGranted)) w1)
              | Some d \<Rightarrow>
                  if sign_sourcePkh req \<noteq> pkh d then (None, throw (Error (ErrorType NotFound)) w1)
                  else
                    (case getNetworkRPC (NETWORKS env) (network d) of
                       Inl e \<Rightarrow> (None, emit (UnhandledRejection e) (w1\<lparr>promise := Pending\<rparr>))
                     | Inr networkRpc \<Rightarrow>
                         (case requestConfirm id'
                                 (SignPayload origin networkRpc (appMeta d) (sign_sourcePkh req)
                                    (payload req) (build_preview env (payload req)))
                                 decline_NotGranted
                                 (sign_handleIntercomRequest id' d (payload req))
                                 winId (w1\<lparr>promise := Pending\<rparr>) of
                            (c, w2) \<Rightarrow> (Some c, w2))))))"

subsubsection \<open>requestBroadcast\<close>

text \<open>The catch clause of \<^verbatim>\<open>requestBroadcast\<close>.\<close>

fun broadcast_catch :: "error \<Rightarrow> error" where
  "broadcast_catch (TezosOperationError m errs) = TezosOperationError (ErrorType TezosOperation) errs"
| "broadcast_catch err = Error (Text ''Failed to broadcast'')"

definition requestBroadcast ::
  "env \<Rightarrow> string \<Rightarrow> ThanosDAppBroadcastRequest \<Rightarrow> world \<Rightarrow> (error + ThanosDAppResponse) \<times> world" where
  "requestBroadcast env origin req w =
     (case signedOpBytes req of
        None \<Rightarrow> (Inl (Error (ErrorType InvalidParams)), w)
      | Some bytes \<Rightarrow>
          if \<not> 0 < length bytes then (Inl (Error (ErrorType InvalidParams)), w)
          else
            (case getDApp origin w of (dApp, w1) \<Rightarrow>
               (case dApp of
                  None \<Rightarrow> (Inl (Error (ErrorType NotGranted)), w1)
                | Some d \<Rightarrow>
                    (case getNetworkRPC (NETWORKS env) (network d) of
                       Inl err \<Rightarrow> (Inl (broadcast_catch err), w1)
                     | Inr rpc \<Rightarrow>
                         (case injectOperation env rpc bytes of
                            Inl err \<Rightarrow> (Inl (broadcast_catch err), emit (InjectOperation rpc bytes) w1)
                          | Inr opHash \<Rightarrow>
                              (Inr (BroadcastResponse opHash), emit (InjectOperation rpc bytes) w1))))))"

subsection \<open>A small concrete instance\<close>

text \<open>
  One known network, one connected origin, and collaborators that succeed. The
  theorems below are instantiated at it, with single fields replaced where a failure
  is needed.
\<close>

definition example_env :: env where
  "example_env =
     \<lparr>NETWORKS = [ThanosNetwork ''mainnet'' ''https://main'' False],
      isAddressValid = (\<lambda>s. s = ''tz1a''),
      injectOperation = (\<lambda>r b. Inr ''oo2''),
      emitMicheline = (\<lambda>h. Inr ''(ab)''),
      parse = (\<lambda>h. Inl TypeError)\<rparr>"

definition example_session :: ThanosDAppSession where
  "example_session =
     \<lparr>network = NetId ''mainnet'', appMeta = \<lparr>name = ''App''\<rparr>, pkh = ''tz1a'', publicKey = ''edpk''\<rparr>"

definition example_world :: world where
  "example_world = \<lparr>storage = Some [''dapp'' \<mapsto> example_session], promise = Pending, log = []\<rparr>"

text \<open>The same origin, connected under a network id that the table no longer lists.\<close>

definition stale_world :: world where
  "stale_world =
     \<lparr>storage = Some [''dapp'' \<mapsto> example_session\<lparr>network := NetId ''oldnet''\<rparr>],
      promise = Pending, log = []\<rparr>"

definition empty_world :: world where
  "empty_world = \<lparr>storage = None, promise = Pending, log = []\<rparr>"

text \<open>
  The confirmation that requestPermission opens for a first connect request of the
  origin "dapp", and the world it leaves.
\<close>

definition example_connect :: "nat confirmation \<times> world" where
  "example_connect =
     requestConfirm ''id1'' (ConnectPayload ''dapp'' ''https://main'' \<lparr>name = ''App''\<rparr>)
       decline_NotGranted
       (permission_handleIntercomRequest ''dapp'' ''id1'' (NetId ''mainnet'') \<lparr>name = ''App''\<rparr> ''https://main'')
       (Some 7) ((emit StorageGet empty_world)\<lparr>promise := Pending\<rparr>)"

text \<open>The confirmation that requestOperation opens for the connected origin.\<close>

definition example_operation_request :: ThanosDAppOperationRequest where
  "example_operation_request =
     \<lparr>op_sourcePkh = ''tz1a'', opParams = Some [OpParam (Some ''transaction'') ''x'']\<rparr>"

definition example_operation :: "nat confirmation \<times> world" where
  "example_operation =
     requestConfirm ''id1''
       (ConfirmOperationsPayload ''dapp'' ''https://main'' \<lparr>name = ''App''\<rparr> ''tz1a'' ''edpk''
          [OpParam (Some ''transaction'') ''x''])
       decline_NotGranted
       (operation_handleIntercomRequest ''id1'' example_session ''https://main''
          [OpParam (Some ''transaction'') ''x''])
       (Some 7) ((emit StorageGet example_world)\<lparr>promise := Pending\<rparr>)"

text \<open>
  A sign request whose payload is neither a signed message nor parsable (the example
  forger rejects everything), and the confirmation that requestSign opens for it.
\<close>

definition example_sign_request :: ThanosDAppSignRequest where
  "example_sign_request = \<lparr>sign_sourcePkh = ''tz1a'', payload = ''0x0501000000084d657373616765''\<rparr>"

definition example_sign :: "nat confirmation \<times> world" where
  "example_sign =
     requestConfirm ''id1''
       (SignPayload ''dapp'' ''https://main'' \<lparr>name = ''App''\<rparr> ''tz1a''
          ''0501000000084d657373616765'' Null)
       decline_NotGranted
       (sign_handleIntercomRequest ''id1'' example_session ''0501000000084d657373616765'')
       (Some 7) ((emit StorageGet example_world)\<lparr>promise := Pending\<rparr>)"

subsection \<open>Shapes used in the statements\<close>

text \<open>
  The four calls of one teardown, and the shape of a confirmation between
  \<^verbatim>\<open>requestConfirm\<close> and the end of its life: either still open, with timer and
  listeners in place and no teardown call made, or closing, with each call made once.
\<close>

definition full_teardown :: "teardown_call list" where
  "full_teardown = [StopTimeout, StopRequestListening, StopWinRemovedListening, CloseWindow]"

definition truthy_id :: "nat option \<Rightarrow> bool" where
  "truthy_id i = (case i of None \<Rightarrow> False | Some n \<Rightarrow> n \<noteq> 0)"

definition consistent :: "'p confirmation \<Rightarrow> bool" where
  "consistent c =
     (if closing c
      then teardown c = full_teardown \<and> \<not> timer c \<and> \<not> requestListening c \<and>
           \<not> winRemovedListening c \<and> \<not> (truthy_id (confirmWin c) \<and> windowExists c)
      else teardown c = [] \<and> timer c \<and> requestListening c \<and> winRemovedListening c)"

text \<open>\<^verbatim>\<open>err instanceof TezosOperationError\<close>\<close>

fun isTezosOperationError :: "error \<Rightarrow> bool" where
  "isTezosOperationError (TezosOperationError m errs) = True"
| "isTezosOperationError (Error m) = False"
| "isTezosOperationError TypeError = False"

text \<open>
  A task is quiet when, each time it is resumed, it either returns a result (after
  which the listener closes the confirmation) or leaves the caller's promise as it
  is; and a handler is quiet when each call of it is.
\<close>

inductive quiet :: "task \<Rightarrow> bool" where
  quiet_Done: "quiet (Done x)"
| quiet_StorageGet:
    "(\<And>current w. quiet (fst (k current w)) \<and>
        (returned (fst (k current w)) \<or> promise (snd (k current w)) = promise w))
     \<Longrightarrow> quiet (AwaitStorageGet k)"
| quiet_StorageSet:
    "(\<And>w. quiet (fst (k w)) \<and> (returned (fst (k w)) \<or> promise (snd (k w)) = promise w))
     \<Longrightarrow> quiet (AwaitStorageSet newDApps k)"
| quiet_SendOperations:
    "(\<And>res w. quiet (fst (k res w)) \<and> (returned (fst (k res w)) \<or> promise (snd (k res w)) = promise w))
     \<Longrightarrow> quiet (AwaitSendOperations pkh' rpc ops k)"
| quiet_LoadChainId:
    "(\<And>res w. quiet (fst (k res w)) \<and> (returned (fst (k res w)) \<or> promise (snd (k res w)) = promise w))
     \<Longrightarrow> quiet (AwaitLoadChainId rpc k)"
| quiet_PndOpsAppend:
    "(\<And>res w. quiet (fst (k res w)) \<and> (returned (fst (k res w)) \<or> promise (snd (k res w)) = promise w))
     \<Longrightarrow> quiet (AwaitPndOpsAppend pkh' chainId h k)"
| quiet_Sign:
    "(\<And>res w. quiet (fst (k res w)) \<and> (returned (fst (k res w)) \<or> promise (snd (k res w)) = promise w))
     \<Longrightarrow> quiet (AwaitSign pkh' bytes k)"

definition quiet_handler :: "handler \<Rightarrow> bool" where
  "quiet_handler h =
     (\<forall>req w. quiet (fst (h req decline_NotGranted w)) \<and>
        (returned (fst (h req decline_NotGranted w)) \<or>
         promise (snd (h req decline_NotGranted w)) = promise w))"

text \<open>
  A confirmation and a world fit together when the confirmation has the shape above,
  its callbacks and suspended calls are quiet, and the caller's promise is pending
  unless the confirmation is closing.
\<close>

definition sound :: "'p confirmation \<times> world \<Rightarrow> bool" where
  "sound s =
     (consistent (fst s) \<and> list_all quiet (inflight (fst s)) \<and>
      quiet_handler (handleIntercomRequest (fst s)) \<and> onDecline (fst s) = decline_NotGranted \<and>
      (closing (fst s) \<or> promise (snd s) = Pending))"

section \<open>Properties\<close>

subsection \<open>Auxiliary facts\<close>

lemma getDApp_eq: "getDApp origin w = (stored w origin, emit StorageGet w)"
  by (simp add: getDApp_def getAllDApps_def)

lemma find_nid_Some:
  "net \<in> nid ` set nets \<Longrightarrow> \<exists>n. find (\<lambda>n. nid n = net) nets = Some n \<and> n \<in> set nets \<and> nid n = net"
  by (induction nets) auto

lemma find_nid_None:
  "net \<notin> nid ` set nets \<Longrightarrow> find (\<lambda>n. nid n = net) nets = None"
  by (induction nets) auto

lemma isNetworkEquals_rpc:
  "isNetworkEquals fNet sNet \<Longrightarrow> getNetworkRPC nets fNet = getNetworkRPC nets sNet"
  by (cases fNet; cases sNet) (simp_all add: isNetworkEquals_def)

lemma allowed_resolves:
  "isAllowedNetwork nets (Some net) \<Longrightarrow> \<exists>r. getNetworkRPC nets net = Inr r"
proof (cases net)
  case (NetId x)
  assume "isAllowedNetwork nets (Some net)"
  with NetId have "x \<in> nid ` set nets" by (auto simp: list_ex_iff)
  from find_nid_Some [OF this] NetId show ?thesis by auto
next
  case (NetCustom nm r)
  then show ?thesis by simp
qed

lemma example_stored: "stored example_world ''dapp'' = Some example_session"
  by (simp add: stored_def example_world_def)

subsection \<open>The fast path of requestPermission\<close>

text \<open>
  C4. A valid permission request (allowed network, app name present) from an origin
  that already has a session, for a network equal to the session's and the same app
  name, without \<open>force\<close>, resolves at once with the rpc, pkh and public key of the
  existing grant (the same triple that getCurrentPermission reports), after one
  storage read and nothing else: no confirmation is opened. Two network ids are equal
  when the strings are, two inline descriptors when their rpc endpoints are, and an id
  never equals a descriptor.
\<close>

theorem requestPermission_fast_path:
  assumes valid: "isAllowedNetwork (NETWORKS env) (req_network req)" "req_appMeta req = Some meta"
    and net: "req_network req = Some net"
    and session: "stored w origin = Some d"
    and same: "isNetworkEquals net (network d)" "name meta = name (appMeta d)"
    and unforced: "\<not> force req"
  shows "(\<exists>r. getNetworkRPC (NETWORKS env) (network d) = Inr r \<and>
            requestPermission env origin req id' winId w =
              (None, w\<lparr>promise := Resolved (PermissionResponse r (pkh d) (publicKey d)),
                       log := log w @ [StorageGet]\<rparr>) \<and>
            fst (getCurrentPermission env origin w) =
              Inr (GetCurrentPermissionResponse (Some (Permission r (pkh d) (publicKey d))))) \<and>
         isNetworkEquals (NetId a) (NetId b) = (a = b) \<and>
         isNetworkEquals (NetCustom n1 r1) (NetCustom n2 r2) = (r1 = r2) \<and>
         \<not> isNetworkEquals (NetId a) (NetCustom n2 r2) \<and>
         \<not> isNetworkEquals (NetCustom n1 r1) (NetId b)"
proof -
  from valid(1) net obtain r where r: "getNetworkRPC (NETWORKS env) net = Inr r"
    by (metis allowed_resolves)
  with same(1) have rd: "getNetworkRPC (NETWORKS env) (network d) = Inr r"
    using isNetworkEquals_rpc by metis
  have "requestPermission env origin req id' winId w =
          (None, w\<lparr>promise := Resolved (PermissionResponse r (pkh d) (publicKey d)),
                   log := log w @ [StorageGet]\<rparr>)"
    using valid net session same unforced r
    by (simp add: requestPermission_def getDApp_eq emit_def)
  moreover have "fst (getCurrentPermission env origin w) =
             Inr (GetCurrentPermissionResponse (Some (Permission r (pkh d) (publicKey d))))"
    using session rd by (simp add: getCurrentPermission_def getDApp_eq)
  ultimately have "\<exists>r. getNetworkRPC (NETWORKS env) (network d) = Inr r \<and>
            requestPermission env origin req id' winId w =
              (None, w\<lparr>promise := Resolved (PermissionResponse r (pkh d) (publicKey d)),
                       log := log w @ [StorageGet]\<rparr>) \<and>
            fst (getCurrentPermission env origin w) =
              Inr (GetCurrentPermissionResponse (Some (Permission r (pkh d) (publicKey d))))"
    using rd by blast
  then show ?thesis by (simp add: isNetworkEquals_def)
qed

theorem requestPermission_fast_path_witness:
  "requestPermission example_env ''dapp''
      \<lparr>req_network = Some (NetId ''mainnet''), req_appMeta = Some \<lparr>name = ''App''\<rparr>, force = False\<rparr>
      ''id1'' (Some 7) example_world =
    (None :: nat confirmation option,
     example_world\<lparr>promise := Resolved (PermissionResponse ''https://main'' ''tz1a'' ''edpk''),
                   log := [StorageGet]\<rparr>)"
proof -
  let ?req = "\<lparr>req_network = Some (NetId ''mainnet''), req_appMeta = Some \<lparr>name = ''App''\<rparr>,
               force = False\<rparr>"
  have h1: "isAllowedNetwork (NETWORKS example_env) (req_network ?req)"
    by (simp add: example_env_def)
  have h2: "req_appMeta ?req = Some \<lparr>name = ''App''\<rparr>" by simp
  have h3: "req_network ?req = Some (NetId ''mainnet'')" by simp
  have h5: "isNetworkEquals (NetId ''mainnet'') (network example_session)"
    by (simp add: isNetworkEquals_def example_session_def)
  have h6: "name \<lparr>name = ''App''\<rparr> = name (appMeta example_session)"
    by (simp add: example_session_def)
  have h7: "\<not> force ?req" by simp
  have r: "getNetworkRPC (NETWORKS example_env) (network example_session) = Inr ''https://main''"
    by (simp add: example_env_def example_session_def)
  from requestPermission_fast_path [where id' = "''id1''" and winId = "Some 7",
      OF h1 h2 h3 example_stored h5 h6 h7, THEN conjunct1]
  obtain r' where "getNetworkRPC (NETWORKS example_env) (network example_session) = Inr r'"
    and "requestPermission example_env ''dapp'' ?req ''id1'' (Some 7) example_world =
    (None :: nat confirmation option,
     example_world\<lparr>promise := Resolved (PermissionResponse r' (pkh example_session) (publicKey example_session)),
                   log := log example_world @ [StorageGet]\<rparr>)"
    by blast
  with r show ?thesis by (simp add: example_session_def example_world_def)
qed

subsection \<open>getNetworkRPC on a network id that is not in the table\<close>

text \<open>
  C10. On a string network id, getNetworkRPC returns the rpcBaseURL of the (first)
  entry of the known-network table with that id, and throws a TypeError when the
  table has no such entry. So for a session stored under an id that the table no
  longer lists, getCurrentPermission rejects with that TypeError, which is none of the
  protocol's error codes; requestBroadcast fails with its generic error before any
  injection; and in requestOperation and requestSign the TypeError escapes the
  executor of the promise, which stays pending with no confirmation opened.
\<close>

theorem getNetworkRPC_partial:
  "(net \<in> nid ` set nets \<longrightarrow>
      (\<exists>n. find (\<lambda>n. nid n = net) nets = Some n \<and> n \<in> set nets \<and> nid n = net \<and>
           getNetworkRPC nets (NetId net) = Inr (rpcBaseURL n))) \<and>
   (net \<notin> nid ` set nets \<longrightarrow> getNetworkRPC nets (NetId net) = Inl TypeError) \<and>
   (net \<notin> nid ` set (NETWORKS env) \<and> stored w origin = Some d \<and> network d = NetId net \<longrightarrow>
      getCurrentPermission env origin w = (Inl TypeError, emit StorageGet w) \<and>
      (signedOpBytes breq = Some bytes \<and> bytes \<noteq> [] \<longrightarrow>
         requestBroadcast env origin breq w =
           (Inl (Error (Text ''Failed to broadcast'')), emit StorageGet w)) \<and>
      (operation_valid env oreq = Inr True \<and> op_sourcePkh oreq = pkh d \<longrightarrow>
         requestOperation env origin oreq id' winId w =
           (None, emit (UnhandledRejection TypeError) ((emit StorageGet w)\<lparr>promise := Pending\<rparr>))) \<and>
      (isAddressValid env (sign_sourcePkh (strip_0x sreq)) \<and> HEX_PATTERN (payload (strip_0x sreq)) \<and>
       sign_sourcePkh (strip_0x sreq) = pkh d \<longrightarrow>
         requestSign env origin sreq id' winId w =
           (None, emit (UnhandledRejection TypeError) ((emit StorageGet w)\<lparr>promise := Pending\<rparr>))))"
proof (intro conjI impI)
  assume "net \<in> nid ` set nets"
  from find_nid_Some [OF this] obtain n where
    n: "find (\<lambda>n. nid n = net) nets = Some n" "n \<in> set nets" "nid n = net" by blast
  then show "\<exists>n. find (\<lambda>n. nid n = net) nets = Some n \<and> n \<in> set nets \<and> nid n = net \<and>
           getNetworkRPC nets (NetId net) = Inr (rpcBaseURL n)" by simp
next
  assume "net \<notin> nid ` set nets"
  then show "getNetworkRPC nets (NetId net) = Inl TypeError"
    by (simp add: find_nid_None)
next
  assume a: "net \<notin> nid ` set (NETWORKS env) \<and> stored w origin = Some d \<and> network d = NetId net"
  then have s: "getNetworkRPC (NETWORKS env) (network d) = Inl TypeError"
    by (simp add: find_nid_None)
  with a show "getCurrentPermission env origin w = (Inl TypeError, emit StorageGet w)"
    by (simp add: getCurrentPermission_def getDApp_eq)
  {
    assume "signedOpBytes breq = Some bytes \<and> bytes \<noteq> []"
    with a s show "requestBroadcast env origin breq w =
           (Inl (Error (Text ''Failed to broadcast'')), emit StorageGet w)"
      by (simp add: requestBroadcast_def getDApp_eq)
  }
  {
    assume v: "operation_valid env oreq = Inr True \<and> op_sourcePkh oreq = pkh d"
    then obtain ops where "opParams oreq = Some ops"
      by (cases "opParams oreq") (auto simp: operation_valid_def)
    with v a s show "requestOperation env origin oreq id' winId w =
           (None, emit (UnhandledRejection TypeError) ((emit StorageGet w)\<lparr>promise := Pending\<rparr>))"
      by (simp add: requestOperation_def getDApp_eq)
  }
  {
    assume "isAddressValid env (sign_sourcePkh (strip_0x sreq)) \<and> HEX_PATTERN (payload (strip_0x sreq)) \<and>
       sign_sourcePkh (strip_0x sreq) = pkh d"
    then have v: "isAddressValid env (sign_sourcePkh (strip_0x sreq))"
        "HEX_PATTERN (payload (strip_0x sreq))" and e: "sign_sourcePkh (strip_0x sreq) = pkh d"
      by blast+
    from v a s show "requestSign env origin sreq id' winId w =
           (None, emit (UnhandledRejection TypeError) ((emit StorageGet w)\<lparr>promise := Pending\<rparr>))"
      by (simp add: requestSign_def getDApp_eq e)
  }
qed

theorem getNetworkRPC_partial_witness:
  "getNetworkRPC [ThanosNetwork ''mainnet'' ''https://main'' False] (NetId ''mainnet'') = Inr ''https://main'' \<and>
   getNetworkRPC [ThanosNetwork ''mainnet'' ''https://main'' False] (NetId ''oldnet'') = Inl TypeError \<and>
   getCurrentPermission example_env ''dapp'' stale_world = (Inl TypeError, emit StorageGet stale_world) \<and>
   requestBroadcast example_env ''dapp'' \<lparr>signedOpBytes = Some ''ab''\<rparr> stale_world =
     (Inl (Error (Text ''Failed to broadcast'')), emit StorageGet stale_world) \<and>
   requestOperation example_env ''dapp'' \<lparr>op_sourcePkh = ''tz1a'', opParams = Some [OpParam (Some ''transaction'') ''x'']\<rparr>
       ''id1'' (Some 7) stale_world =
     (None :: nat confirmation option,
      emit (UnhandledRejection TypeError) ((emit StorageGet stale_world)\<lparr>promise := Pending\<rparr>)) \<and>
   requestSign example_env ''dapp'' \<lparr>sign_sourcePkh = ''tz1a'', payload = ''0xab''\<rparr> ''id1'' (Some 7) stale_world =
     (None :: nat confirmation option,
      emit (UnhandledRejection TypeError) ((emit StorageGet stale_world)\<lparr>promise := Pending\<rparr>))"
proof -
  let ?nets = "[ThanosNetwork ''mainnet'' ''https://main'' False]"
  let ?d = "example_session\<lparr>network := NetId ''oldnet''\<rparr>"
  let ?oreq = "\<lparr>op_sourcePkh = ''tz1a'', opParams = Some [OpParam (Some ''transaction'') ''x'']\<rparr>"
  let ?sreq = "\<lparr>sign_sourcePkh = ''tz1a'', payload = ''0xab''\<rparr>"
  have in1: "''mainnet'' \<in> nid ` set ?nets" by simp
  have out1: "''oldnet'' \<notin> nid ` set ?nets" by simp
  have stale: "''oldnet'' \<notin> nid ` set (NETWORKS example_env) \<and>
      stored stale_world ''dapp'' = Some ?d \<and> network ?d = NetId ''oldnet''"
    by (simp add: example_env_def stored_def stale_world_def)
  have b: "signedOpBytes \<lparr>signedOpBytes = Some ''ab''\<rparr> = Some ''ab'' \<and> ''ab'' \<noteq> []" by simp
  have ov: "operation_valid example_env ?oreq = Inr True \<and> op_sourcePkh ?oreq = pkh ?d"
    by (simp add: operation_valid_def example_env_def example_session_def)
  have sv: "isAddressValid example_env (sign_sourcePkh (strip_0x ?sreq)) \<and>
      HEX_PATTERN (payload (strip_0x ?sreq)) \<and> sign_sourcePkh (strip_0x ?sreq) = pkh ?d"
    by (simp add: strip_0x_def HEX_PATTERN_def hexdigit_def example_env_def example_session_def)
  note T = getNetworkRPC_partial
  have "\<exists>n. find (\<lambda>n. nid n = ''mainnet'') ?nets = Some n \<and> n \<in> set ?nets \<and> nid n = ''mainnet'' \<and>
           getNetworkRPC ?nets (NetId ''mainnet'') = Inr (rpcBaseURL n)"
    using T [THEN conjunct1, rule_format, OF in1] .
  then have c1: "getNetworkRPC ?nets (NetId ''mainnet'') = Inr ''https://main''" by auto
  have c2: "getNetworkRPC ?nets (NetId ''oldnet'') = Inl TypeError"
    using T [THEN conjunct2, THEN conjunct1, rule_format, OF out1] .
  note S = T [THEN conjunct2, THEN conjunct2, rule_format, OF stale]
  have c3: "getCurrentPermission example_env ''dapp'' stale_world = (Inl TypeError, emit StorageGet stale_world)"
    using S [THEN conjunct1] .
  have c4: "requestBroadcast example_env ''dapp'' \<lparr>signedOpBytes = Some ''ab''\<rparr> stale_world =
     (Inl (Error (Text ''Failed to broadcast'')), emit StorageGet stale_world)"
    using S [THEN conjunct2, THEN conjunct1, rule_format, OF b] .
  have c5: "requestOperation example_env ''dapp'' ?oreq ''id1'' (Some 7) stale_world =
     (None :: nat confirmation option,
      emit (UnhandledRejection TypeError) ((emit StorageGet stale_world)\<lparr>promise := Pending\<rparr>))"
    using S [THEN conjunct2, THEN conjunct2, THEN conjunct1, rule_format, OF ov] .
  have c6: "requestSign example_env ''dapp'' ?sreq ''id1'' (Some 7) stale_world =
     (None :: nat confirmation option,
      emit (UnhandledRejection TypeError) ((emit StorageGet stale_world)\<lparr>promise := Pending\<rparr>))"
    using S [THEN conjunct2, THEN conjunct2, THEN conjunct2, rule_format, OF sv] .
  from c1 c2 c3 c4 c5 c6 show ?thesis by blast
qed

subsection \<open>Session checks of requestOperation and requestSign\<close>

lemma strip_0x_sourcePkh: "sign_sourcePkh (strip_0x req) = sign_sourcePkh req"
  by (simp add: strip_0x_def)

text \<open>
  C5. A requestOperation call that passes validation, and a requestSign call whose
  address is valid and whose payload (after the optional 0x is removed) is hexadecimal:
  with no session for the origin the caller's promise is rejected with NotGranted, and
  with a session whose pkh differs from the request's sourcePkh it is rejected with
  NotFound. In both cases the only effect is the read of the stored sessions: no
  confirmation is opened (no window, no timer) and the vault is not called.
\<close>

theorem session_checks_precede_confirmation:
  "(operation_valid env oreq = Inr True \<longrightarrow>
      (stored w origin = None \<longrightarrow>
         requestOperation env origin oreq id' winId w =
           (None, w\<lparr>promise := Rejected (Error (ErrorType NotGranted)), log := log w @ [StorageGet]\<rparr>)) \<and>
      (stored w origin = Some d \<and> op_sourcePkh oreq \<noteq> pkh d \<longrightarrow>
         requestOperation env origin oreq id' winId w =
           (None, w\<lparr>promise := Rejected (Error (ErrorType NotFound)), log := log w @ [StorageGet]\<rparr>))) \<and>
   (isAddressValid env (sign_sourcePkh sreq) \<and> HEX_PATTERN (payload (strip_0x sreq)) \<longrightarrow>
      (stored w origin = None \<longrightarrow>
         requestSign env origin sreq id' winId w =
           (None, w\<lparr>promise := Rejected (Error (ErrorType NotGranted)), log := log w @ [StorageGet]\<rparr>)) \<and>
      (stored w origin = Some d \<and> sign_sourcePkh sreq \<noteq> pkh d \<longrightarrow>
         requestSign env origin sreq id' winId w =
           (None, w\<lparr>promise := Rejected (Error (ErrorType NotFound)), log := log w @ [StorageGet]\<rparr>)))"
proof (intro conjI impI)
  assume v: "operation_valid env oreq = Inr True"
  then obtain ops where ops: "opParams oreq = Some ops"
    by (cases "opParams oreq") (auto simp: operation_valid_def)
  {
    assume "stored w origin = None"
    with v ops show "requestOperation env origin oreq id' winId w =
        (None, w\<lparr>promise := Rejected (Error (ErrorType NotGranted)), log := log w @ [StorageGet]\<rparr>)"
      by (simp add: requestOperation_def getDApp_eq throw_def emit_def)
  }
  {
    assume "stored w origin = Some d \<and> op_sourcePkh oreq \<noteq> pkh d"
    with v ops show "requestOperation env origin oreq id' winId w =
        (None, w\<lparr>promise := Rejected (Error (ErrorType NotFound)), log := log w @ [StorageGet]\<rparr>)"
      by (simp add: requestOperation_def getDApp_eq throw_def emit_def)
  }
next
  assume "isAddressValid env (sign_sourcePkh sreq) \<and> HEX_PATTERN (payload (strip_0x sreq))"
  then have v: "isAddressValid env (sign_sourcePkh (strip_0x sreq))" "HEX_PATTERN (payload (strip_0x sreq))"
    by (simp_all add: strip_0x_sourcePkh)
  {
    assume "stored w origin = None"
    with v show "requestSign env origin sreq id' winId w =
        (None, w\<lparr>promise := Rejected (Error (ErrorType NotGranted)), log := log w @ [StorageGet]\<rparr>)"
      by (simp add: requestSign_def getDApp_eq throw_def emit_def)
  }
  {
    assume "stored w origin = Some d \<and> sign_sourcePkh sreq \<noteq> pkh d"
    with v show "requestSign env origin sreq id' winId w =
        (None, w\<lparr>promise := Rejected (Error (ErrorType NotFound)), log := log w @ [StorageGet]\<rparr>)"
      by (simp add: requestSign_def getDApp_eq throw_def emit_def strip_0x_sourcePkh)
  }
qed

theorem session_checks_precede_confirmation_witness:
  "requestOperation example_env ''other''
       \<lparr>op_sourcePkh = ''tz1a'', opParams = Some [OpParam (Some ''transaction'') ''x'']\<rparr>
       ''id1'' (Some 7) example_world =
     (None :: nat confirmation option,
      example_world\<lparr>promise := Rejected (Error (ErrorType NotGranted)), log := [StorageGet]\<rparr>) \<and>
   requestOperation (example_env\<lparr>isAddressValid := (\<lambda>s. True)\<rparr>) ''dapp''
       \<lparr>op_sourcePkh = ''tz1b'', opParams = Some [OpParam (Some ''transaction'') ''x'']\<rparr>
       ''id1'' (Some 7) example_world =
     (None :: nat confirmation option,
      example_world\<lparr>promise := Rejected (Error (ErrorType NotFound)), log := [StorageGet]\<rparr>) \<and>
   requestSign example_env ''other'' \<lparr>sign_sourcePkh = ''tz1a'', payload = ''0xab''\<rparr>
       ''id1'' (Some 7) example_world =
     (None :: nat confirmation option,
      example_world\<lparr>promise := Rejected (Error (ErrorType NotGranted)), log := [StorageGet]\<rparr>) \<and>
   requestSign (example_env\<lparr>isAddressValid := (\<lambda>s. True)\<rparr>) ''dapp''
       \<lparr>sign_sourcePkh = ''tz1b'', payload = ''0xab''\<rparr> ''id1'' (Some 7) example_world =
     (None :: nat confirmation option,
      example_world\<lparr>promise := Rejected (Error (ErrorType NotFound)), log := [StorageGet]\<rparr>)"
proof -
  let ?env = "example_env\<lparr>isAddressValid := (\<lambda>s. True)\<rparr>"
  let ?oa = "\<lparr>op_sourcePkh = ''tz1a'', opParams = Some [OpParam (Some ''transaction'') ''x'']\<rparr>"
  let ?ob = "\<lparr>op_sourcePkh = ''tz1b'', opParams = Some [OpParam (Some ''transaction'') ''x'']\<rparr>"
  let ?sa = "\<lparr>sign_sourcePkh = ''tz1a'', payload = ''0xab''\<rparr>"
  let ?sb = "\<lparr>sign_sourcePkh = ''tz1b'', payload = ''0xab''\<rparr>"
  have none: "stored example_world ''other'' = None"
    by (simp add: stored_def example_world_def)
  have va: "operation_valid example_env ?oa = Inr True"
    by (simp add: operation_valid_def example_env_def)
  have vb: "operation_valid ?env ?ob = Inr True"
    by (simp add: operation_valid_def)
  have db: "stored example_world ''dapp'' = Some example_session \<and> op_sourcePkh ?ob \<noteq> pkh example_session"
    by (simp add: example_stored example_session_def)
  have sva: "isAddressValid example_env (sign_sourcePkh ?sa) \<and> HEX_PATTERN (payload (strip_0x ?sa))"
    by (simp add: strip_0x_def HEX_PATTERN_def hexdigit_def example_env_def)
  have svb: "isAddressValid ?env (sign_sourcePkh ?sb) \<and> HEX_PATTERN (payload (strip_0x ?sb))"
    by (simp add: strip_0x_def HEX_PATTERN_def hexdigit_def)
  have dsb: "stored example_world ''dapp'' = Some example_session \<and> sign_sourcePkh ?sb \<noteq> pkh example_session"
    by (simp add: example_stored example_session_def)
  have l: "log example_world @ [StorageGet] = [StorageGet]"
    by (simp add: example_world_def)
  note T = session_checks_precede_confirmation
  have c1: "requestOperation example_env ''other'' ?oa ''id1'' (Some 7) example_world =
     (None :: nat confirmation option,
      example_world\<lparr>promise := Rejected (Error (ErrorType NotGranted)), log := log example_world @ [StorageGet]\<rparr>)"
    using T [THEN conjunct1, rule_format, OF va, THEN conjunct1, rule_format, OF none] .
  have c2: "requestOperation ?env ''dapp'' ?ob ''id1'' (Some 7) example_world =
     (None :: nat confirmation option,
      example_world\<lparr>promise := Rejected (Error (ErrorType NotFound)), log := log example_world @ [StorageGet]\<rparr>)"
    using T [THEN conjunct1, rule_format, OF vb, THEN conjunct2, rule_format, OF db] .
  have c3: "requestSign example_env ''other'' ?sa ''id1'' (Some 7) example_world =
     (None :: nat confirmation option,
      example_world\<lparr>promise := Rejected (Error (ErrorType NotGranted)), log := log example_world @ [StorageGet]\<rparr>)"
    using T [THEN conjunct2, rule_format, OF sva, THEN conjunct1, rule_format, OF none] .
  have c4: "requestSign ?env ''dapp'' ?sb ''id1'' (Some 7) example_world =
     (None :: nat confirmation option,
      example_world\<lparr>promise := Rejected (Error (ErrorType NotFound)), log := log example_world @ [StorageGet]\<rparr>)"
    using T [THEN conjunct2, rule_format, OF svb, THEN conjunct2, rule_format, OF dsb] .
  from c1 c2 c3 c4 show ?thesis unfolding l by blast
qed

subsection \<open>Validation in requestOperation\<close>

lemma every_kind_string_no_null:
  "Nullish \<notin> set ops \<Longrightarrow>
     every_kind_string ops = Inr (list_all (\<lambda>p. \<exists>k body. p = OpParam (Some k) body) ops)"
proof (induction ops rule: every_kind_string.induct)
  case (4 k body ops)
  then show ?case by simp
qed simp_all

text \<open>
  When no element of opParams is null or undefined, validation behaves as a plain
  test: an invalid address, a missing or empty opParams, or an element without a
  string kind rejects with InvalidParams, and nothing else happens.
\<close>

lemma requestOperation_InvalidParams:
  assumes "opParams req = None \<or>
           (\<exists>ops. opParams req = Some ops \<and> Nullish \<notin> set ops \<and>
              (\<not> isAddressValid env (op_sourcePkh req) \<or> ops = [] \<or>
               (\<exists>body. OpParam None body \<in> set ops)))"
  shows "requestOperation env origin req id' winId w =
           (None, w\<lparr>promise := Rejected (Error (ErrorType InvalidParams))\<rparr>)"
proof (cases "opParams req")
  case None
  then show ?thesis
    by (simp add: requestOperation_def operation_valid_def throw_def)
next
  case (Some ops)
  with assms have n: "Nullish \<notin> set ops"
    and bad: "\<not> isAddressValid env (op_sourcePkh req) \<or> ops = [] \<or> (\<exists>body. OpParam None body \<in> set ops)"
    by auto
  from bad have "\<not> (isAddressValid env (op_sourcePkh req) \<and> 0 < length ops \<and>
      list_all (\<lambda>p. \<exists>k body. p = OpParam (Some k) body) ops)"
    by (auto simp: list_all_iff)
  with Some n have "operation_valid env req = Inr False"
    by (simp add: operation_valid_def every_kind_string_no_null)
  with Some show ?thesis
    by (simp add: requestOperation_def throw_def)
qed

text \<open>
  C6. The claim promises InvalidParams whenever some element of opParams lacks a
  string kind. An element that is \<^verbatim>\<open>null\<close> lacks one, but the test reads \<^verbatim>\<open>op.kind\<close> on
  it: with opParams = [null] the call is rejected with the runtime's TypeError instead
  (still before any storage read and with no confirmation opened).
\<close>

theorem requestOperation_null_element:
  "requestOperation env origin \<lparr>op_sourcePkh = src, opParams = Some [Nullish]\<rparr> id' winId w =
     (None, w\<lparr>promise := Rejected TypeError\<rparr>) \<and>
   Rejected TypeError \<noteq> (Rejected (Error (ErrorType InvalidParams)) :: ThanosDAppResponse promise)"
  by (simp add: requestOperation_def operation_valid_def throw_def)

subsection \<open>requestBroadcast\<close>

text \<open>
  C9. Empty or missing signedOpBytes: InvalidParams, with no effect at all. No session
  for the origin: NotGranted. Otherwise, for a session whose network resolves to an
  rpc endpoint (as the network of every session does that a permission approval has
  stored under the same table of networks), the bytes are injected there, with no
  confirmation: the result is the operation hash, or the TezosOperationError with its
  message replaced by the TezosOperation code, or, for any other injection failure,
  the generic "Failed to broadcast" error.
\<close>

theorem requestBroadcast_outcomes:
  "(signedOpBytes req = None \<or> signedOpBytes req = Some [] \<longrightarrow>
      requestBroadcast env origin req w = (Inl (Error (ErrorType InvalidParams)), w)) \<and>
   (signedOpBytes req = Some bytes \<and> bytes \<noteq> [] \<longrightarrow>
      (stored w origin = None \<longrightarrow>
         requestBroadcast env origin req w =
           (Inl (Error (ErrorType NotGranted)), w\<lparr>log := log w @ [StorageGet]\<rparr>)) \<and>
      (stored w origin = Some d \<and> getNetworkRPC (NETWORKS env) (network d) = Inr rpc \<longrightarrow>
         (injectOperation env rpc bytes = Inr opHash \<longrightarrow>
            requestBroadcast env origin req w =
              (Inr (BroadcastResponse opHash),
               w\<lparr>log := log w @ [StorageGet, InjectOperation rpc bytes]\<rparr>)) \<and>
         (injectOperation env rpc bytes = Inl (TezosOperationError m errs) \<longrightarrow>
            requestBroadcast env origin req w =
              (Inl (TezosOperationError (ErrorType TezosOperation) errs),
               w\<lparr>log := log w @ [StorageGet, InjectOperation rpc bytes]\<rparr>)) \<and>
         (injectOperation env rpc bytes = Inl (Error msg) \<or> injectOperation env rpc bytes = Inl TypeError \<longrightarrow>
            requestBroadcast env origin req w =
              (Inl (Error (Text ''Failed to broadcast'')),
               w\<lparr>log := log w @ [StorageGet, InjectOperation rpc bytes]\<rparr>))))"
proof (intro conjI impI)
  assume "signedOpBytes req = None \<or> signedOpBytes req = Some []"
  then show "requestBroadcast env origin req w = (Inl (Error (ErrorType InvalidParams)), w)"
    by (auto simp: requestBroadcast_def)
next
  assume b: "signedOpBytes req = Some bytes \<and> bytes \<noteq> []"
  {
    assume "stored w origin = None"
    with b show "requestBroadcast env origin req w =
           (Inl (Error (ErrorType NotGranted)), w\<lparr>log := log w @ [StorageGet]\<rparr>)"
      by (simp add: requestBroadcast_def getDApp_eq emit_def)
  }
  {
    assume s: "stored w origin = Some d \<and> getNetworkRPC (NETWORKS env) (network d) = Inr rpc"
    {
      assume "injectOperation env rpc bytes = Inr opHash"
      with b s show "requestBroadcast env origin req w =
              (Inr (BroadcastResponse opHash),
               w\<lparr>log := log w @ [StorageGet, InjectOperation rpc bytes]\<rparr>)"
        by (simp add: requestBroadcast_def getDApp_eq emit_def)
    }
    {
      assume "injectOperation env rpc bytes = Inl (TezosOperationError m errs)"
      with b s show "requestBroadcast env origin req w =
              (Inl (TezosOperationError (ErrorType TezosOperation) errs),
               w\<lparr>log := log w @ [StorageGet, InjectOperation rpc bytes]\<rparr>)"
        by (simp add: requestBroadcast_def getDApp_eq emit_def)
    }
    {
      assume "injectOperation env rpc bytes = Inl (Error msg) \<or> injectOperation env rpc bytes = Inl TypeError"
      with b s show "requestBroadcast env origin req w =
              (Inl (Error (Text ''Failed to broadcast'')),
               w\<lparr>log := log w @ [StorageGet, InjectOperation rpc bytes]\<rparr>)"
        by (auto simp: requestBroadcast_def getDApp_eq emit_def)
    }
  }
qed

theorem requestBroadcast_outcomes_witness:
  "requestBroadcast example_env ''dapp'' \<lparr>signedOpBytes = Some []\<rparr> example_world =
     (Inl (Error (ErrorType InvalidParams)), example_world) \<and>
   requestBroadcast example_env ''other'' \<lparr>signedOpBytes = Some ''ab''\<rparr> example_world =
     (Inl (Error (ErrorType NotGranted)), example_world\<lparr>log := [StorageGet]\<rparr>) \<and>
   requestBroadcast example_env ''dapp'' \<lparr>signedOpBytes = Some ''ab''\<rparr> example_world =
     (Inr (BroadcastResponse ''oo2''),
      example_world\<lparr>log := [StorageGet, InjectOperation ''https://main'' ''ab'']\<rparr>) \<and>
   requestBroadcast
       (example_env\<lparr>injectOperation := (\<lambda>r b. Inl (TezosOperationError (Text ''node'') ''errs''))\<rparr>)
       ''dapp'' \<lparr>signedOpBytes = Some ''ab''\<rparr> example_world =
     (Inl (TezosOperationError (ErrorType TezosOperation) ''errs''),
      example_world\<lparr>log := [StorageGet, InjectOperation ''https://main'' ''ab'']\<rparr>) \<and>
   requestBroadcast (example_env\<lparr>injectOperation := (\<lambda>r b. Inl (Error (Text ''timeout'')))\<rparr>)
       ''dapp'' \<lparr>signedOpBytes = Some ''ab''\<rparr> example_world =
     (Inl (Error (Text ''Failed to broadcast'')),
      example_world\<lparr>log := [StorageGet, InjectOperation ''https://main'' ''ab'']\<rparr>)"
proof -
  let ?envT = "example_env\<lparr>injectOperation := (\<lambda>r b. Inl (TezosOperationError (Text ''node'') ''errs''))\<rparr>"
  let ?envE = "example_env\<lparr>injectOperation := (\<lambda>r b. Inl (Error (Text ''timeout'')))\<rparr>"
  let ?req = "\<lparr>signedOpBytes = Some ''ab''\<rparr>"
  have e: "signedOpBytes \<lparr>signedOpBytes = Some []\<rparr> = None \<or>
           signedOpBytes \<lparr>signedOpBytes = Some []\<rparr> = Some []" by simp
  have b: "signedOpBytes ?req = Some ''ab'' \<and> ''ab'' \<noteq> []" by simp
  have none: "stored example_world ''other'' = None"
    by (simp add: stored_def example_world_def)
  have s: "stored example_world ''dapp'' = Some example_session \<and>
      getNetworkRPC (NETWORKS example_env) (network example_session) = Inr ''https://main''"
    by (simp add: example_stored example_env_def example_session_def)
  have sT: "stored example_world ''dapp'' = Some example_session \<and>
      getNetworkRPC (NETWORKS ?envT) (network example_session) = Inr ''https://main''"
    by (simp add: example_stored example_env_def example_session_def)
  have sE: "stored example_world ''dapp'' = Some example_session \<and>
      getNetworkRPC (NETWORKS ?envE) (network example_session) = Inr ''https://main''"
    by (simp add: example_stored example_env_def example_session_def)
  have i1: "injectOperation example_env ''https://main'' ''ab'' = Inr ''oo2''"
    by (simp add: example_env_def)
  have i2: "injectOperation ?envT ''https://main'' ''ab'' = Inl (TezosOperationError (Text ''node'') ''errs'')"
    by simp
  have i3: "injectOperation ?envE ''https://main'' ''ab'' = Inl (Error (Text ''timeout'')) \<or>
            injectOperation ?envE ''https://main'' ''ab'' = Inl TypeError"
    by simp
  have l: "log example_world = []" by (simp add: example_world_def)
  note T = requestBroadcast_outcomes
  have c1: "requestBroadcast example_env ''dapp'' \<lparr>signedOpBytes = Some []\<rparr> example_world =
     (Inl (Error (ErrorType InvalidParams)), example_world)"
    using T [THEN conjunct1, rule_format, OF e] .
  note U = T [THEN conjunct2, rule_format, OF b]
  have c2: "requestBroadcast example_env ''other'' ?req example_world =
     (Inl (Error (ErrorType NotGranted)), example_world\<lparr>log := log example_world @ [StorageGet]\<rparr>)"
    using U [THEN conjunct1, rule_format, OF none] .
  have c3: "requestBroadcast example_env ''dapp'' ?req example_world =
     (Inr (BroadcastResponse ''oo2''),
      example_world\<lparr>log := log example_world @ [StorageGet, InjectOperation ''https://main'' ''ab'']\<rparr>)"
    using U [THEN conjunct2, rule_format, OF s, THEN conjunct1, rule_format, OF i1] .
  have c4: "requestBroadcast ?envT ''dapp'' ?req example_world =
     (Inl (TezosOperationError (ErrorType TezosOperation) ''errs''),
      example_world\<lparr>log := log example_world @ [StorageGet, InjectOperation ''https://main'' ''ab'']\<rparr>)"
    using U [THEN conjunct2, rule_format, OF sT, THEN conjunct2, THEN conjunct1,
        rule_format, OF i2] .
  have c5: "requestBroadcast ?envE ''dapp'' ?req example_world =
     (Inl (Error (Text ''Failed to broadcast'')),
      example_world\<lparr>log := log example_world @ [StorageGet, InjectOperation ''https://main'' ''ab'']\<rparr>)"
    using U [THEN conjunct2, rule_format, OF sE, THEN conjunct2, THEN conjunct2,
        rule_format, OF i3] .
  from c1 c2 c3 c4 c5 show ?thesis unfolding l by simp
qed

subsection \<open>Steps of a confirmation\<close>

lemmas close_defs =
  close_def closeWindow_def called_def stopTimeout_def stopRequestListening_def
  stopWinRemovedListening_def

lemma close_closing: "closing (close c)"
  by (simp add: close_defs split: option.splits)

lemma close_when_closing: "closing c \<Longrightarrow> close c = c"
  by (simp add: close_def)

lemma close_static:
  "cid (close c) = cid c \<and> onDecline (close c) = onDecline c \<and>
   handleIntercomRequest (close c) = handleIntercomRequest c \<and> cpayload (close c) = cpayload c \<and>
   confirmWin (close c) = confirmWin c \<and> knownPort (close c) = knownPort c \<and>
   inflight (close c) = inflight c"
  by (simp add: close_defs split: option.splits)

lemma close_open:
  "\<not> closing c \<Longrightarrow> teardown c = [] \<Longrightarrow>
     teardown (close c) = full_teardown \<and> \<not> timer (close c) \<and> \<not> requestListening (close c) \<and>
     \<not> winRemovedListening (close c) \<and> \<not> (truthy_id (confirmWin (close c)) \<and> windowExists (close c))"
  by (simp add: close_defs full_teardown_def truthy_id_def split: option.splits)

lemma close_consistent: "consistent c \<Longrightarrow> consistent (close c)"
proof (cases "closing c")
  case True
  assume "consistent c"
  with True show ?thesis by (simp add: close_when_closing)
next
  case False
  assume "consistent c"
  with False have "teardown c = []" by (simp add: consistent_def)
  from close_open [OF False this] show ?thesis
    by (simp add: consistent_def close_closing)
qed

lemma timer_off_consistent:
  "consistent c \<Longrightarrow> consistent (close (c\<lparr>timer := False\<rparr>))"
proof (cases "closing c")
  case True
  assume "consistent c"
  with True have "c\<lparr>timer := False\<rparr> = c" by (simp add: consistent_def)
  with True \<open>consistent c\<close> show ?thesis by (simp add: close_when_closing)
next
  case False
  assume "consistent c"
  with False have "teardown (c\<lparr>timer := False\<rparr>) = []" "\<not> closing (c\<lparr>timer := False\<rparr>)"
    by (simp_all add: consistent_def)
  from close_open [OF this(2) this(1)] show ?thesis
    by (simp add: consistent_def close_closing)
qed

lemma window_gone_consistent:
  "consistent c \<Longrightarrow> consistent (c\<lparr>windowExists := False\<rparr>)"
  by (simp add: consistent_def)

lemma inflight_consistent: "consistent (c\<lparr>inflight := ts\<rparr>) = consistent c"
  by (simp add: consistent_def)

lemma knownPort_consistent: "consistent (c\<lparr>knownPort := p\<rparr>) = consistent c"
  by (simp add: consistent_def)

text \<open>What the listener does, by what the handler call turned out to be.\<close>

lemma onRequest_handshake:
  "onRequest (DAppGetPayloadRequest (cid c)) port (c, w) =
     (Some (Inr (Some (DAppGetPayloadResponse (cpayload c)))), c\<lparr>knownPort := Some port\<rparr>, w)"
  by (simp add: onRequest_def)

lemma onRequest_ignored:
  "req \<noteq> DAppGetPayloadRequest (cid c) \<Longrightarrow> knownPort c \<noteq> Some port \<Longrightarrow>
     onRequest req port (c, w) = (Some (Inr None), c, w)"
  by (simp add: onRequest_def)

lemma onRequest_handled:
  assumes "req \<noteq> DAppGetPayloadRequest (cid c)" "knownPort c = Some port"
    and "handleIntercomRequest c req (onDecline c) w = (t, w1)"
  shows "onRequest req port (c, w) =
           (case t of Done x \<Rightarrow> Some x | _ \<Rightarrow> None,
            if returned t then close c
            else (case t of Done x \<Rightarrow> c | _ \<Rightarrow> c\<lparr>inflight := inflight c @ [t]\<rparr>),
            w1)"
  using assms
  by (cases t rule: returned.cases) (simp_all add: onRequest_def)

lemma onRequest_conf:
  "\<exists>t. fst (snd (onRequest req port (c, w))) = c\<lparr>knownPort := Some port\<rparr> \<or>
       fst (snd (onRequest req port (c, w))) = c \<or>
       fst (snd (onRequest req port (c, w))) = close c \<or>
       fst (snd (onRequest req port (c, w))) = c\<lparr>inflight := inflight c @ [t]\<rparr>"
proof (cases "req = DAppGetPayloadRequest (cid c)")
  case True
  then show ?thesis by (simp add: onRequest_handshake)
next
  case False
  show ?thesis
  proof (cases "knownPort c = Some port")
    case no: False
    with False show ?thesis by (simp add: onRequest_ignored)
  next
    case True
    obtain t w1 where h: "handleIntercomRequest c req (onDecline c) w = (t, w1)"
      by (cases "handleIntercomRequest c req (onDecline c) w")
    from onRequest_handled [OF False True h] show ?thesis
      by (cases t) auto
  qed
qed

lemma resumed_conf:
  "fst (resumed n tw c) = c\<lparr>inflight := (inflight c)[n := fst tw]\<rparr> \<or>
   fst (resumed n tw c) = close (c\<lparr>inflight := (inflight c)[n := fst tw]\<rparr>)"
  by (cases tw) (simp add: resumed_def)

lemma step_conf:
  "\<exists>ts. fst (step (c, w) ev) = c \<or>
        (\<exists>port. fst (step (c, w) ev) = c\<lparr>knownPort := Some port\<rparr>) \<or>
        fst (step (c, w) ev) = close c \<or>
        fst (step (c, w) ev) = close (c\<lparr>timer := False\<rparr>) \<or>
        fst (step (c, w) ev) = c\<lparr>windowExists := False\<rparr> \<or>
        fst (step (c, w) ev) = close (c\<lparr>windowExists := False\<rparr>) \<or>
        fst (step (c, w) ev) = c\<lparr>inflight := ts\<rparr> \<or>
        fst (step (c, w) ev) = close (c\<lparr>inflight := ts\<rparr>)"
proof (cases ev)
  case (Request req port)
  with onRequest_conf [of req port c w] show ?thesis by auto
next
  case TimerFired
  then show ?thesis by (simp add: declineAndClose_def)
next
  case (WindowRemoved winId)
  then show ?thesis by (simp add: handleWinRemoved_def declineAndClose_def)
next
  case CloseInvoked
  then show ?thesis by simp
next
  case (Completed n res)
  show ?thesis
  proof (cases "slot c n")
    case None
    with Completed show ?thesis by simp
  next
    case (Some t)
    show ?thesis
    proof (cases "resume t res w")
      case None
      with Some Completed show ?thesis by simp
    next
      case tw: (Some tw)
      with Some Completed have "step (c, w) ev = resumed n tw c" by simp
      with resumed_conf [of n tw c] show ?thesis by auto
    qed
  qed
qed

lemma step_consistent: "consistent c \<Longrightarrow> consistent (fst (step (c, w) ev))"
proof -
  assume c: "consistent c"
  from step_conf [of c w ev] obtain ts where
    "fst (step (c, w) ev) = c \<or>
        (\<exists>port. fst (step (c, w) ev) = c\<lparr>knownPort := Some port\<rparr>) \<or>
        fst (step (c, w) ev) = close c \<or>
        fst (step (c, w) ev) = close (c\<lparr>timer := False\<rparr>) \<or>
        fst (step (c, w) ev) = c\<lparr>windowExists := False\<rparr> \<or>
        fst (step (c, w) ev) = close (c\<lparr>windowExists := False\<rparr>) \<or>
        fst (step (c, w) ev) = c\<lparr>inflight := ts\<rparr> \<or>
        fst (step (c, w) ev) = close (c\<lparr>inflight := ts\<rparr>)" by blast
  moreover have "consistent (c\<lparr>inflight := ts\<rparr>)" using c by (simp add: inflight_consistent)
  moreover have "\<And>port. consistent (c\<lparr>knownPort := Some port\<rparr>)"
    using c by (simp add: knownPort_consistent)
  ultimately show ?thesis
    using c close_consistent timer_off_consistent [OF c] window_gone_consistent [OF c]
    by (auto simp del: step.simps)
qed

lemma step_static:
  "cid (fst (step (c, w) ev)) = cid c \<and> onDecline (fst (step (c, w) ev)) = onDecline c \<and>
   handleIntercomRequest (fst (step (c, w) ev)) = handleIntercomRequest c \<and>
   cpayload (fst (step (c, w) ev)) = cpayload c \<and> confirmWin (fst (step (c, w) ev)) = confirmWin c"
  using step_conf [of c w ev] by (auto simp: close_static simp del: step.simps)

lemma step_closing: "closing c \<Longrightarrow> closing (fst (step (c, w) ev))"
  using step_conf [of c w ev] by (auto simp: close_closing simp del: step.simps)

lemma run_Nil: "run [] s = s"
  by (simp add: run_def)

lemma run_Cons: "run (ev # evs) s = run evs (step s ev)"
  by (simp add: run_def)

lemma run_append: "run (evs @ evs') s = run evs' (run evs s)"
  by (simp add: run_def)

lemma run_snoc: "run (evs @ [ev]) s = step (run evs s) ev"
  by (simp add: run_def)

lemma run_consistent: "consistent (fst s) \<Longrightarrow> consistent (fst (run evs s))"
proof (induction evs arbitrary: s)
  case Nil
  then show ?case by (simp add: run_Nil)
next
  case (Cons ev evs)
  obtain c w where s: "s = (c, w)" by (cases s)
  with Cons.prems have "consistent (fst (step s ev))" by (simp add: step_consistent del: step.simps)
  from Cons.IH [OF this] show ?case by (simp add: run_Cons)
qed

lemma run_static:
  "cid (fst (run evs s)) = cid (fst s) \<and> onDecline (fst (run evs s)) = onDecline (fst s) \<and>
   handleIntercomRequest (fst (run evs s)) = handleIntercomRequest (fst s) \<and>
   cpayload (fst (run evs s)) = cpayload (fst s) \<and> confirmWin (fst (run evs s)) = confirmWin (fst s)"
proof (induction evs arbitrary: s)
  case Nil
  then show ?case by (simp add: run_Nil)
next
  case (Cons ev evs)
  obtain c w where s: "s = (c, w)" by (cases s)
  from Cons.IH [of "step s ev"] step_static [of c w ev] s show ?case
    by (simp add: run_Cons del: step.simps)
qed

lemma run_closing: "closing (fst s) \<Longrightarrow> closing (fst (run evs s))"
proof (induction evs arbitrary: s)
  case Nil
  then show ?case by (simp add: run_Nil)
next
  case (Cons ev evs)
  obtain c w where s: "s = (c, w)" by (cases s)
  with Cons.prems have "closing (fst (step s ev))" by (simp add: step_closing del: step.simps)
  from Cons.IH [OF this] show ?case by (simp add: run_Cons)
qed

text \<open>The events that call \<^verbatim>\<open>close\<close> whatever the handler does.\<close>

lemma trigger_closes:
  assumes "consistent c"
    and "ev = TimerFired \<or> ev = CloseInvoked \<or> (\<exists>i. confirmWin c = Some i \<and> ev = WindowRemoved i)"
  shows "closing (fst (step (c, w) ev))"
proof (cases "closing c")
  case True
  then show ?thesis by (rule step_closing)
next
  case False
  with assms(1) have "timer c" "winRemovedListening c" by (simp_all add: consistent_def)
  with assms(2) show ?thesis
    by (auto simp: declineAndClose_def handleWinRemoved_def close_closing)
qed

lemma run_trigger:
  assumes "consistent (fst s)"
    and "TimerFired \<in> set evs \<or> CloseInvoked \<in> set evs \<or>
         (\<exists>i. confirmWin (fst s) = Some i \<and> WindowRemoved i \<in> set evs)"
  shows "closing (fst (run evs s))"
  using assms
proof (induction evs arbitrary: s)
  case Nil
  then show ?case by simp
next
  case (Cons ev evs)
  obtain c w where s: "s = (c, w)" by (cases s)
  from Cons.prems(1) s have cs: "consistent (fst (step s ev))"
    by (simp add: step_consistent del: step.simps)
  have cw: "confirmWin (fst (step s ev)) = confirmWin (fst s)"
    using s step_static [of c w ev] by (simp del: step.simps)
  show ?case
  proof (cases "ev = TimerFired \<or> ev = CloseInvoked \<or> (\<exists>i. confirmWin (fst s) = Some i \<and> ev = WindowRemoved i)")
    case True
    with Cons.prems(1) s have "closing (fst (step s ev))"
      using trigger_closes [of c ev w] by (simp del: step.simps)
    then show ?thesis by (simp add: run_Cons run_closing)
  next
    case False
    with Cons.prems(2) have "TimerFired \<in> set evs \<or> CloseInvoked \<in> set evs \<or>
         (\<exists>i. confirmWin (fst (step s ev)) = Some i \<and> WindowRemoved i \<in> set evs)"
      unfolding cw by auto
    from Cons.IH [OF cs this] show ?thesis by (simp add: run_Cons)
  qed
qed

lemma requestConfirm_consistent: "consistent (fst (requestConfirm id' p d h winId w))"
  by (simp add: requestConfirm_def consistent_def)

subsection \<open>Suspended calls and the caller's promise\<close>

text \<open>A slot changes only when its own completion is delivered.\<close>

lemma onRequest_slot:
  "n < length (inflight c) \<Longrightarrow>
     slot (fst (snd (onRequest req port (c, w)))) n = slot c n"
  using onRequest_conf [of req port c w]
  by (auto simp: slot_def close_static nth_append)

lemma step_slot:
  assumes "n < length (inflight c)" "\<not> completes n ev"
  shows "slot (fst (step (c, w) ev)) n = slot c n"
proof (cases ev)
  case (Request req port)
  with assms onRequest_slot [of n c req port w] show ?thesis by simp
next
  case TimerFired
  then show ?thesis by (simp add: declineAndClose_def slot_def close_static)
next
  case (WindowRemoved winId)
  then show ?thesis by (simp add: handleWinRemoved_def declineAndClose_def slot_def close_static)
next
  case CloseInvoked
  then show ?thesis by (simp add: slot_def close_static)
next
  case (Completed m res)
  with assms have "m \<noteq> n" by simp
  with Completed assms(1) show ?thesis
    by (auto simp: slot_def resumed_def close_static split: option.splits prod.splits)
qed

lemma step_length: "length (inflight c) \<le> length (inflight (fst (step (c, w) ev)))"
  using step_conf [of c w ev]
proof -
  show ?thesis
  proof (cases ev)
    case (Request req port)
    with onRequest_conf [of req port c w] show ?thesis by (auto simp: close_static)
  next
    case TimerFired
    then show ?thesis by (simp add: declineAndClose_def close_static)
  next
    case (WindowRemoved winId)
    then show ?thesis by (simp add: handleWinRemoved_def declineAndClose_def close_static)
  next
    case CloseInvoked
    then show ?thesis by (simp add: close_static)
  next
    case (Completed m res)
    then show ?thesis
      by (auto simp: resumed_def close_static split: option.splits prod.splits)
  qed
qed

lemma run_slot:
  assumes "n < length (inflight (fst s))" "\<forall>ev\<in>set evs. \<not> completes n ev"
  shows "slot (fst (run evs s)) n = slot (fst s) n"
  using assms
proof (induction evs arbitrary: s)
  case Nil
  then show ?case by (simp add: run_Nil)
next
  case (Cons ev evs)
  obtain c w where s: "s = (c, w)" by (cases s)
  from Cons.prems s have 1: "slot (fst (step s ev)) n = slot (fst s) n"
    using step_slot [of n c ev w] by (simp del: step.simps)
  from Cons.prems(1) s step_length [of c w ev]
  have 2: "n < length (inflight (fst (step s ev)))" by (simp del: step.simps)
  from Cons.IH [OF 2] Cons.prems(2) 1 show ?case by (simp add: run_Cons)
qed

text \<open>The three handlers are quiet.\<close>

lemma quiet_setDApp_task:
  assumes "\<And>newDApps w. fst (k newDApps w) = Done x" "returned (Done x)"
  shows "quiet (setDApp_task origin d k)"
  unfolding setDApp_task_def
  by (intro quiet.intros allI conjI) (simp_all add: assms quiet.intros)

lemma permission_handler_quiet:
  "quiet_handler (permission_handleIntercomRequest origin id' net meta networkRpc)"
  unfolding quiet_handler_def
proof (intro allI)
  fix req w
  show "quiet (fst (permission_handleIntercomRequest origin id' net meta networkRpc req decline_NotGranted w)) \<and>
        (returned (fst (permission_handleIntercomRequest origin id' net meta networkRpc req decline_NotGranted w)) \<or>
         promise (snd (permission_handleIntercomRequest origin id' net meta networkRpc req decline_NotGranted w)) = promise w)"
    by (cases "(origin, id', net, meta, networkRpc, req, decline_NotGranted, w)"
        rule: permission_handleIntercomRequest.cases)
       (auto intro!: quiet_setDApp_task quiet.intros)
qed

lemma operation_resolve_quiet:
  "quiet (fst (operation_resolve op w)) \<and> returned (fst (operation_resolve op w))"
  by (simp add: operation_resolve_def quiet.intros)

lemma operation_after_chainId_quiet:
  "quiet (fst (operation_after_chainId dApp op res w)) \<and>
   (returned (fst (operation_after_chainId dApp op res w)) \<or>
    promise (snd (operation_after_chainId dApp op res w)) = promise w)"
  by (cases res)
     (auto simp: operation_after_chainId_def operation_resolve_quiet emit_def intro!: quiet.intros)

lemma operation_after_chainId_returned:
  "promise (snd (operation_after_chainId dApp op res w)) \<noteq> promise w \<Longrightarrow>
     returned (fst (operation_after_chainId dApp op res w))"
  using operation_after_chainId_quiet by blast

lemma operation_after_send_quiet:
  "quiet (fst (operation_after_send dApp networkRpc res w)) \<and>
   (returned (fst (operation_after_send dApp networkRpc res w)) \<or>
    promise (snd (operation_after_send dApp networkRpc res w)) = promise w)"
proof (cases res)
  case (Inl err)
  then show ?thesis
    by (cases err) (simp_all add: operation_after_send_def quiet.intros)
next
  case (Inr op)
  then show ?thesis
    by (auto simp: operation_after_send_def operation_after_chainId_quiet [THEN conjunct1] emit_def
        intro!: quiet.intros operation_after_chainId_returned)
qed

lemma operation_after_send_returned:
  "promise (snd (operation_after_send dApp networkRpc res w)) \<noteq> promise w \<Longrightarrow>
     returned (fst (operation_after_send dApp networkRpc res w))"
  using operation_after_send_quiet by blast

lemma operation_handler_quiet:
  "quiet_handler (operation_handleIntercomRequest id' dApp networkRpc ops)"
  unfolding quiet_handler_def
proof (intro allI)
  fix req w
  show "quiet (fst (operation_handleIntercomRequest id' dApp networkRpc ops req decline_NotGranted w)) \<and>
        (returned (fst (operation_handleIntercomRequest id' dApp networkRpc ops req decline_NotGranted w)) \<or>
         promise (snd (operation_handleIntercomRequest id' dApp networkRpc ops req decline_NotGranted w)) = promise w)"
    by (cases req)
       (auto simp: emit_def operation_after_send_quiet [THEN conjunct1]
          intro!: quiet.intros operation_after_send_returned)
qed

lemma sign_after_quiet:
  "quiet (fst (sign_after res w)) \<and>
   (returned (fst (sign_after res w)) \<or> promise (snd (sign_after res w)) = promise w)"
  by (cases res) (simp_all add: sign_after_def quiet.intros)

lemma sign_after_returned:
  "promise (snd (sign_after res w)) \<noteq> promise w \<Longrightarrow> returned (fst (sign_after res w))"
  using sign_after_quiet by blast

lemma sign_handler_quiet:
  "quiet_handler (sign_handleIntercomRequest id' dApp payload')"
  unfolding quiet_handler_def
proof (intro allI)
  fix req w
  show "quiet (fst (sign_handleIntercomRequest id' dApp payload' req decline_NotGranted w)) \<and>
        (returned (fst (sign_handleIntercomRequest id' dApp payload' req decline_NotGranted w)) \<or>
         promise (snd (sign_handleIntercomRequest id' dApp payload' req decline_NotGranted w)) = promise w)"
    by (cases req)
       (auto simp: emit_def sign_after_quiet [THEN conjunct1]
          intro!: quiet.intros sign_after_returned)
qed

text \<open>Resuming a quiet task gives a quiet task that returns a result or leaves the promise.\<close>

lemma resume_quiet:
  assumes "quiet t" "resume t res w = Some (t', w')"
  shows "quiet t' \<and> (returned t' \<or> promise w' = promise w)"
  using assms
proof (cases t rule: quiet.cases)
  case (quiet_Done x)
  with assms(2) show ?thesis by simp
next
  case (quiet_StorageGet k)
  with assms(2) have "res = StorageGetDone" by (cases res) simp_all
  with quiet_StorageGet assms(2) have "(t', w') = k (stored w) (emit StorageGet w)" by simp
  with quiet_StorageGet(2) [of "stored w" "emit StorageGet w"] show ?thesis
    by (cases "k (stored w) (emit StorageGet w)") (auto simp: emit_def)
next
  case (quiet_StorageSet k newDApps)
  with assms(2) have "res = StorageSetDone" by (cases res) simp_all
  with quiet_StorageSet assms(2) have "(t', w') = k (setDApps newDApps w)" by simp
  with quiet_StorageSet(2) [of "setDApps newDApps w"] show ?thesis
    by (cases "k (setDApps newDApps w)") (auto simp: setDApps_def emit_def)
next
  case (quiet_SendOperations k pkh' rpc ops)
  with assms(2) obtain r where "res = SendOperationsDone r" by (cases res) simp_all
  with quiet_SendOperations assms(2) have "(t', w') = k r w" by simp
  with quiet_SendOperations(2) [of r w] show ?thesis by (cases "k r w") auto
next
  case (quiet_LoadChainId k rpc)
  with assms(2) obtain r where "res = LoadChainIdDone r" by (cases res) simp_all
  with quiet_LoadChainId assms(2) have "(t', w') = k r w" by simp
  with quiet_LoadChainId(2) [of r w] show ?thesis by (cases "k r w") auto
next
  case (quiet_PndOpsAppend k pkh' chainId h)
  with assms(2) obtain r where "res = PndOpsAppendDone r" by (cases res) simp_all
  with quiet_PndOpsAppend assms(2) have "(t', w') = k r w" by simp
  with quiet_PndOpsAppend(2) [of r w] show ?thesis by (cases "k r w") auto
next
  case (quiet_Sign k pkh' bytes)
  with assms(2) obtain r where "res = SignDone r" by (cases res) simp_all
  with quiet_Sign assms(2) have "(t', w') = k r w" by simp
  with quiet_Sign(2) [of r w] show ?thesis by (cases "k r w") auto
qed

lemma step_sound: "sound s \<Longrightarrow> sound (step s ev)"
proof -
  assume a: "sound s"
  obtain c w where s: "s = (c, w)" by (cases s)
  from a s have cons: "consistent c" and q: "list_all quiet (inflight c)"
    and h: "quiet_handler (handleIntercomRequest c)" and d: "onDecline c = decline_NotGranted"
    and p: "closing c \<or> promise w = Pending"
    by (simp_all add: sound_def)
  have 1: "consistent (fst (step (c, w) ev))" using cons by (rule step_consistent)
  have 2: "quiet_handler (handleIntercomRequest (fst (step (c, w) ev)))"
    "onDecline (fst (step (c, w) ev)) = decline_NotGranted"
    using step_static [of c w ev] h d by (simp_all del: step.simps)
  have 3: "list_all quiet (inflight (fst (step (c, w) ev))) \<and>
      (closing (fst (step (c, w) ev)) \<or> promise (snd (step (c, w) ev)) = Pending)"
  proof (cases ev)
    case (Request req port)
    show ?thesis
    proof (cases "requestListening c \<and> req \<noteq> DAppGetPayloadRequest (cid c) \<and> knownPort c = Some port")
      case False
      then consider "\<not> requestListening c" | "req = DAppGetPayloadRequest (cid c)"
        | "req \<noteq> DAppGetPayloadRequest (cid c)" "knownPort c \<noteq> Some port" by blast
      then show ?thesis
      proof cases
        case 1
        with Request q p show ?thesis by simp
      next
        case 2
        with Request q p show ?thesis by (simp add: onRequest_handshake)
      next
        case 3
        with Request q p show ?thesis by (simp add: onRequest_ignored)
      qed
    next
      case True
      obtain t w1 where t: "handleIntercomRequest c req (onDecline c) w = (t, w1)"
        by (cases "handleIntercomRequest c req (onDecline c) w")
      from h have "quiet (fst (handleIntercomRequest c req decline_NotGranted w)) \<and>
          (returned (fst (handleIntercomRequest c req decline_NotGranted w)) \<or>
           promise (snd (handleIntercomRequest c req decline_NotGranted w)) = promise w)"
        unfolding quiet_handler_def by blast
      with t d have qt: "quiet t" and rt: "returned t \<or> promise w1 = promise w"
        by simp_all
      from True t onRequest_handled [of req c port w t w1]
      have "snd (onRequest req port (c, w)) =
            (if returned t then close c
             else (case t of Done x \<Rightarrow> c | _ \<Rightarrow> c\<lparr>inflight := inflight c @ [t]\<rparr>), w1)"
        by simp
      with Request True q qt rt p show ?thesis
        by (cases t) (auto simp: close_closing close_static)
    qed
  next
    case TimerFired
    with q p show ?thesis by (auto simp: declineAndClose_def close_closing close_static)
  next
    case (WindowRemoved winId)
    with q p show ?thesis
      by (auto simp: handleWinRemoved_def declineAndClose_def close_closing close_static)
  next
    case CloseInvoked
    with q show ?thesis by (simp add: close_closing close_static)
  next
    case (Completed n res)
    show ?thesis
    proof (cases "slot c n")
      case None
      with Completed q p show ?thesis by simp
    next
      case (Some t)
      then have n: "n < length (inflight c)" and t: "t = inflight c ! n"
        by (simp_all add: slot_def split: if_splits)
      with q have qt: "quiet t" by (simp add: list_all_length)
      show ?thesis
      proof (cases "resume t res w")
        case None
        with Some Completed q p show ?thesis by simp
      next
        case tw: (Some tw)
        obtain t' w' where tw': "tw = (t', w')" by (cases tw)
        from resume_quiet [OF qt] tw tw' have q': "quiet t'" and r': "returned t' \<or> promise w' = promise w"
          by simp_all
        from q q' have ql: "list_all quiet ((inflight c)[n := t'])"
          by (auto simp: list_all_iff dest: set_update_subset_insert [THEN subsetD])
        from Some tw tw' Completed have "step (c, w) ev = resumed n (t', w') c" by simp
        with ql r' p show ?thesis
          by (auto simp: resumed_def close_closing close_static)
      qed
    qed
  qed
  from 1 2 3 s show ?thesis by (simp add: sound_def del: step.simps)
qed

lemma run_sound: "sound s \<Longrightarrow> sound (run evs s)"
proof (induction evs arbitrary: s)
  case Nil
  then show ?case by (simp add: run_Nil)
next
  case (Cons ev evs)
  from Cons.IH [OF step_sound [OF Cons.prems]] show ?case by (simp add: run_Cons)
qed

lemma requestConfirm_sound:
  "quiet_handler h \<Longrightarrow> promise w = Pending \<Longrightarrow>
     sound (requestConfirm id' p decline_NotGranted h winId w)"
  by (simp add: sound_def requestConfirm_consistent) (simp add: requestConfirm_def emit_def)

subsection \<open>Teardown happens exactly once\<close>

lemma consistent_closing_teardown:
  "consistent c \<Longrightarrow> closing c \<Longrightarrow>
     teardown c = [StopTimeout, StopRequestListening, StopWinRemovedListening, CloseWindow]"
  by (simp add: consistent_def full_teardown_def)

text \<open>
  C2. Take the confirmation that requestConfirm has just set up and any sequence of
  events: requests on any channels, the timer, window removals, outcomes delivered to
  suspended handler calls, and direct calls of close, in any order and number.
  Afterwards the teardown calls made are none while the confirmation is open, and
  exactly stopTimeout, stopRequestListening, stopWinRemovedListening, closeWindow,
  each once, when it is closing; then the timer is cleared, both listeners are
  detached and the window (if it has an id) is gone. Every trigger leads there: the
  timer, the removal of the confirmation's window and a call of close; from an open
  confirmation, the handshake on a channel followed by a decision on that channel for
  which the arbiter's handler returns a result at once (an explicit decline); and the
  completion of a suspended handler call with a result (an approval), whether or not
  the confirmation has been closed in the meantime. A decision whose handler is
  suspended is kept in the next free slot. The timer is the one that requestConfirm
  arms, for 120000 milliseconds.
\<close>

theorem teardown_exactly_once:
  assumes "run evs (requestConfirm id' p d h winId w) = (c' :: 'p confirmation, w')"
  shows "teardown c' =
           (if closing c'
            then [StopTimeout, StopRequestListening, StopWinRemovedListening, CloseWindow] else []) \<and>
         timer c' = (\<not> closing c') \<and>
         requestListening c' = (\<not> closing c') \<and>
         winRemovedListening c' = (\<not> closing c') \<and>
         (closing c' \<and> truthy_id winId \<longrightarrow> \<not> windowExists c') \<and>
         (TimerFired \<in> set evs \<or> CloseInvoked \<in> set evs \<or>
            (\<exists>i. winId = Some i \<and> WindowRemoved i \<in> set evs) \<longrightarrow> closing c') \<and>
         (\<forall>port req r w1.
            \<not> closing c' \<and> req \<noteq> DAppGetPayloadRequest id' \<and>
            h req d w' = (Done (Inr (Some r)), w1) \<longrightarrow>
              closing (fst (run [Request (DAppGetPayloadRequest id') port, Request req port] (c', w'))) \<and>
              teardown (fst (run [Request (DAppGetPayloadRequest id') port, Request req port] (c', w'))) =
                [StopTimeout, StopRequestListening, StopWinRemovedListening, CloseWindow]) \<and>
         (\<forall>port req t w1.
            \<not> closing c' \<and> req \<noteq> DAppGetPayloadRequest id' \<and>
            h req d w' = (t, w1) \<and> waiting t \<longrightarrow>
              slot (fst (run [Request (DAppGetPayloadRequest id') port, Request req port] (c', w')))
                (length (inflight c')) = Some t) \<and>
         (\<forall>n res t r w1.
            slot c' n = Some t \<and> resume t res w' = Some (Done (Inr (Some r)), w1) \<longrightarrow>
              closing (fst (step (c', w') (Completed n res))) \<and>
              teardown (fst (step (c', w') (Completed n res))) =
                [StopTimeout, StopRequestListening, StopWinRemovedListening, CloseWindow]) \<and>
         log (snd (requestConfirm id' p d h winId w :: 'p confirmation \<times> world)) =
           log w @ [WindowsCreate id', SetTimeout 120000]"
proof -
  let ?s = "requestConfirm id' p d h winId w :: 'p confirmation \<times> world"
  let ?four = "[StopTimeout, StopRequestListening, StopWinRemovedListening, CloseWindow]"
  have armed: "log (snd ?s) = log w @ [WindowsCreate id', SetTimeout 120000]"
    by (simp add: requestConfirm_def emit_def AUTODECLINE_AFTER_def)
  have c0: "consistent (fst ?s)" by (rule requestConfirm_consistent)
  have w0: "confirmWin (fst ?s) = winId" by (simp add: requestConfirm_def)
  have c': "c' = fst (run evs ?s)" using assms by simp
  have cons: "consistent c'" unfolding c' by (rule run_consistent [OF c0])
  have win: "confirmWin c' = winId" unfolding c' using w0 run_static [of evs ?s] by simp
  have static: "cid c' = id'" "onDecline c' = d" "handleIntercomRequest c' = h"
    unfolding c' using run_static [of evs ?s] by (simp_all add: requestConfirm_def)
  have trig: "TimerFired \<in> set evs \<or> CloseInvoked \<in> set evs \<or>
            (\<exists>i. winId = Some i \<and> WindowRemoved i \<in> set evs) \<longrightarrow> closing c'"
    unfolding c' using run_trigger [OF c0, of evs] w0 by simp
  have declined: "\<forall>port req r w1.
            \<not> closing c' \<and> req \<noteq> DAppGetPayloadRequest id' \<and>
            h req d w' = (Done (Inr (Some r)), w1) \<longrightarrow>
              closing (fst (run [Request (DAppGetPayloadRequest id') port, Request req port] (c', w'))) \<and>
              teardown (fst (run [Request (DAppGetPayloadRequest id') port, Request req port] (c', w'))) = ?four"
  proof (intro allI impI)
    fix port req r w1
    assume a: "\<not> closing c' \<and> req \<noteq> DAppGetPayloadRequest id' \<and> h req d w' = (Done (Inr (Some r)), w1)"
    let ?c1 = "c'\<lparr>knownPort := Some port\<rparr>"
    from a cons have l: "requestListening c'" and t: "teardown c' = []" by (simp_all add: consistent_def)
    from l static have 1: "step (c', w') (Request (DAppGetPayloadRequest id') port) = (?c1, w')"
      by (simp add: onRequest_def)
    from a l static have 2: "step (?c1, w') (Request req port) = (close ?c1, w1)"
      by (simp add: onRequest_def)
    have "run [Request (DAppGetPayloadRequest id') port, Request req port] (c', w') = (close ?c1, w1)"
      by (simp add: run_Cons run_Nil 1 2 del: step.simps)
    moreover from a t have "teardown (close ?c1) = full_teardown"
      using close_open [of ?c1] by simp
    ultimately show "closing (fst (run [Request (DAppGetPayloadRequest id') port, Request req port] (c', w'))) \<and>
              teardown (fst (run [Request (DAppGetPayloadRequest id') port, Request req port] (c', w'))) = ?four"
      by (simp add: close_closing full_teardown_def)
  qed
  have suspended: "\<forall>port req t w1.
            \<not> closing c' \<and> req \<noteq> DAppGetPayloadRequest id' \<and>
            h req d w' = (t, w1) \<and> waiting t \<longrightarrow>
              slot (fst (run [Request (DAppGetPayloadRequest id') port, Request req port] (c', w')))
                (length (inflight c')) = Some t"
  proof (intro allI impI)
    fix port req t w1
    assume a: "\<not> closing c' \<and> req \<noteq> DAppGetPayloadRequest id' \<and>
            h req d w' = (t, w1) \<and> waiting t"
    let ?c1 = "c'\<lparr>knownPort := Some port\<rparr>"
    from a cons have l: "requestListening c'" by (simp add: consistent_def)
    from l static have 1: "step (c', w') (Request (DAppGetPayloadRequest id') port) = (?c1, w')"
      by (simp add: onRequest_def)
    from a static have hh: "handleIntercomRequest ?c1 req (onDecline ?c1) w' = (t, w1)" by simp
    from a static have ne: "req \<noteq> DAppGetPayloadRequest (cid ?c1)" by simp
    have "onRequest req port (?c1, w') = (None, ?c1\<lparr>inflight := inflight ?c1 @ [t]\<rparr>, w1)"
      using a onRequest_handled [OF ne _ hh, of port] by (cases t) simp_all
    with l have 2: "step (?c1, w') (Request req port) = (?c1\<lparr>inflight := inflight c' @ [t]\<rparr>, w1)"
      by simp
    have "run [Request (DAppGetPayloadRequest id') port, Request req port] (c', w') =
        (?c1\<lparr>inflight := inflight c' @ [t]\<rparr>, w1)"
      by (simp add: run_Cons run_Nil 1 2 del: step.simps)
    then show "slot (fst (run [Request (DAppGetPayloadRequest id') port, Request req port] (c', w')))
                (length (inflight c')) = Some t"
      by (simp add: slot_def)
  qed
  have completed: "\<forall>n res t r w1.
            slot c' n = Some t \<and> resume t res w' = Some (Done (Inr (Some r)), w1) \<longrightarrow>
              closing (fst (step (c', w') (Completed n res))) \<and>
              teardown (fst (step (c', w') (Completed n res))) = ?four"
  proof (intro allI impI)
    fix n res t r w1
    assume a: "slot c' n = Some t \<and> resume t res w' = Some (Done (Inr (Some r)), w1)"
    let ?c1 = "c'\<lparr>inflight := (inflight c')[n := Done (Inr (Some r))]\<rparr>"
    from a have "step (c', w') (Completed n res) = (close ?c1, w1)"
      by (simp add: resumed_def)
    moreover have "consistent (close ?c1)"
      using cons by (simp add: close_consistent inflight_consistent)
    ultimately show "closing (fst (step (c', w') (Completed n res))) \<and>
              teardown (fst (step (c', w') (Completed n res))) = ?four"
      using consistent_closing_teardown [of "close ?c1"] by (simp add: close_closing)
  qed
  from cons win have "teardown c' = (if closing c' then ?four else []) \<and>
         timer c' = (\<not> closing c') \<and>
         requestListening c' = (\<not> closing c') \<and>
         winRemovedListening c' = (\<not> closing c') \<and>
         (closing c' \<and> truthy_id winId \<longrightarrow> \<not> windowExists c')"
    by (auto simp: consistent_def full_teardown_def split: if_splits)
  with trig declined suspended completed armed show ?thesis by blast
qed

theorem teardown_exactly_once_witness:
  "teardown (fst (run [Request (DAppGetPayloadRequest ''id1'') 1,
                       Request (DAppOpsConfirmationRequest ''id1'' False) 1] example_operation)) =
     [StopTimeout, StopRequestListening, StopWinRemovedListening, CloseWindow] \<and>
   teardown (fst (run [Request (DAppGetPayloadRequest ''id1'') 1,
                       Request (DAppSignConfirmationRequest ''id1'' True) 1,
                       Completed 0 (SignDone (Inr ''edsig''))] example_sign)) =
     [StopTimeout, StopRequestListening, StopWinRemovedListening, CloseWindow] \<and>
   teardown (fst (run [Request (DAppGetPayloadRequest ''id1'') 1,
                       Request (DAppSignConfirmationRequest ''id1'' True) 1,
                       TimerFired,
                       Completed 0 (SignDone (Inr ''edsig''))] example_sign)) =
     [StopTimeout, StopRequestListening, StopWinRemovedListening, CloseWindow]"
proof -
  let ?hs = "Request (DAppGetPayloadRequest ''id1'') (1::nat)"
  let ?no = "Request (DAppOpsConfirmationRequest ''id1'' False) (1::nat)"
  let ?yes = "Request (DAppSignConfirmationRequest ''id1'' True) (1::nat)"
  let ?done = "Completed 0 (SignDone (Inr ''edsig'')) :: nat event"
  let ?w = "(emit StorageGet example_world)\<lparr>promise := Pending\<rparr>"
  \<comment> \<open>an explicit decline\<close>
  have r0: "run [] example_operation = (fst example_operation, snd example_operation)"
    by (simp add: run_Nil)
  have d0: "\<not> closing (fst example_operation) \<and>
      DAppOpsConfirmationRequest ''id1'' False \<noteq> DAppGetPayloadRequest ''id1'' \<and>
      operation_handleIntercomRequest ''id1'' example_session ''https://main''
          [OpParam (Some ''transaction'') ''x''] (DAppOpsConfirmationRequest ''id1'' False)
          decline_NotGranted (snd example_operation) =
        (Done (Inr (Some DAppOpsConfirmationResponse)), decline_NotGranted (snd example_operation))"
    by (simp add: example_operation_def requestConfirm_def)
  note A = teardown_exactly_once [OF r0 [unfolded example_operation_def], folded example_operation_def]
  have 1: "teardown (fst (run [?hs, ?no] example_operation)) =
      [StopTimeout, StopRequestListening, StopWinRemovedListening, CloseWindow]"
    using A [THEN conjunct2, THEN conjunct2, THEN conjunct2, THEN conjunct2, THEN conjunct2,
        THEN conjunct2, THEN conjunct1, rule_format, OF d0, THEN conjunct2]
    by simp
  \<comment> \<open>an approval whose signature arrives\<close>
  let ?t = "AwaitSign ''tz1a'' ''0501000000084d657373616765'' sign_after"
  have r2: "run [?hs, ?yes] example_sign =
      (fst (run [?hs, ?yes] example_sign), snd (run [?hs, ?yes] example_sign))" by simp
  have s2: "slot (fst (run [?hs, ?yes] example_sign)) 0 = Some ?t \<and>
      resume ?t (SignDone (Inr ''edsig'')) (snd (run [?hs, ?yes] example_sign)) =
        Some (Done (Inr (Some DAppSignConfirmationResponse)),
              (snd (run [?hs, ?yes] example_sign))
                \<lparr>promise := resolve (SignResponse ''edsig'') (promise (snd (run [?hs, ?yes] example_sign)))\<rparr>)"
    by (simp add: example_sign_def requestConfirm_def run_def onRequest_def slot_def
        example_session_def sign_after_def)
  note B = teardown_exactly_once [OF r2 [unfolded example_sign_def], folded example_sign_def]
  have "teardown (fst (step (run [?hs, ?yes] example_sign) ?done)) =
      [StopTimeout, StopRequestListening, StopWinRemovedListening, CloseWindow]"
    using B [THEN conjunct2, THEN conjunct2, THEN conjunct2, THEN conjunct2, THEN conjunct2,
        THEN conjunct2, THEN conjunct2, THEN conjunct2, THEN conjunct1, rule_format, OF s2,
        THEN conjunct2]
    by simp
  then have 2: "teardown (fst (run [?hs, ?yes, ?done] example_sign)) =
      [StopTimeout, StopRequestListening, StopWinRemovedListening, CloseWindow]"
    using run_snoc [of "[?hs, ?yes]" ?done example_sign] by simp
  \<comment> \<open>the same approval, overtaken by the timer\<close>
  have r3: "run [?hs, ?yes, TimerFired] example_sign =
      (fst (run [?hs, ?yes, TimerFired] example_sign), snd (run [?hs, ?yes, TimerFired] example_sign))"
    by simp
  have s3: "slot (fst (run [?hs, ?yes, TimerFired] example_sign)) 0 = Some ?t \<and>
      resume ?t (SignDone (Inr ''edsig'')) (snd (run [?hs, ?yes, TimerFired] example_sign)) =
        Some (Done (Inr (Some DAppSignConfirmationResponse)),
              (snd (run [?hs, ?yes, TimerFired] example_sign))
                \<lparr>promise := resolve (SignResponse ''edsig'')
                    (promise (snd (run [?hs, ?yes, TimerFired] example_sign)))\<rparr>)"
    by (simp add: example_sign_def requestConfirm_def run_def onRequest_def slot_def
        example_session_def sign_after_def declineAndClose_def close_static)
  note C = teardown_exactly_once [OF r3 [unfolded example_sign_def], folded example_sign_def]
  have "teardown (fst (step (run [?hs, ?yes, TimerFired] example_sign) ?done)) =
      [StopTimeout, StopRequestListening, StopWinRemovedListening, CloseWindow]"
    using C [THEN conjunct2, THEN conjunct2, THEN conjunct2, THEN conjunct2, THEN conjunct2,
        THEN conjunct2, THEN conjunct2, THEN conjunct2, THEN conjunct1, rule_format, OF s3,
        THEN conjunct2]
    by simp
  then have 3: "teardown (fst (run [?hs, ?yes, TimerFired, ?done] example_sign)) =
      [StopTimeout, StopRequestListening, StopWinRemovedListening, CloseWindow]"
    using run_snoc [of "[?hs, ?yes, TimerFired]" ?done example_sign] by simp
  from 1 2 3 show ?thesis by blast
qed

subsection \<open>Channel binding\<close>

lemma step_knownPort:
  "knownPort (fst (step (c, w) ev)) = Some q \<Longrightarrow>
     knownPort c = Some q \<or> ev = Request (DAppGetPayloadRequest (cid c)) q"
proof (cases ev)
  case (Request req port)
  assume k: "knownPort (fst (step (c, w) ev)) = Some q"
  show ?thesis
  proof (cases "req = DAppGetPayloadRequest (cid c)")
    case True
    with Request k show ?thesis by (auto simp: onRequest_handshake split: if_splits)
  next
    case False
    from onRequest_conf [of req port c w] obtain t where
      "fst (snd (onRequest req port (c, w))) = c\<lparr>knownPort := Some port\<rparr> \<and> req = DAppGetPayloadRequest (cid c) \<or>
       fst (snd (onRequest req port (c, w))) = c \<or>
       fst (snd (onRequest req port (c, w))) = close c \<or>
       fst (snd (onRequest req port (c, w))) = c\<lparr>inflight := inflight c @ [t]\<rparr>"
      using False
      by (cases "knownPort c = Some port")
         (auto simp: onRequest_ignored onRequest_handled split: task.splits prod.splits)
    with Request k False show ?thesis
      by (auto simp: close_static split: if_splits)
  qed
next
  case TimerFired
  assume "knownPort (fst (step (c, w) ev)) = Some q"
  with TimerFired show ?thesis
    by (auto simp: declineAndClose_def close_static split: if_splits)
next
  case (WindowRemoved winId)
  assume "knownPort (fst (step (c, w) ev)) = Some q"
  with WindowRemoved show ?thesis
    by (auto simp: handleWinRemoved_def declineAndClose_def close_static split: if_splits)
next
  case CloseInvoked
  assume "knownPort (fst (step (c, w) ev)) = Some q"
  with CloseInvoked show ?thesis by (simp add: close_static)
next
  case (Completed n res)
  assume "knownPort (fst (step (c, w) ev)) = Some q"
  with Completed show ?thesis
    by (auto simp: resumed_def close_static split: option.splits prod.splits if_splits)
qed

lemma run_knownPort:
  "knownPort (fst (run evs s)) = Some q \<Longrightarrow>
     knownPort (fst s) = Some q \<or> Request (DAppGetPayloadRequest (cid (fst s))) q \<in> set evs"
proof (induction evs arbitrary: s)
  case Nil
  then show ?case by (simp add: run_Nil)
next
  case (Cons ev evs)
  obtain c w where s: "s = (c, w)" by (cases s)
  from Cons.prems have "knownPort (fst (run evs (step s ev))) = Some q" by (simp add: run_Cons)
  from Cons.IH [OF this]
  have "knownPort (fst (step s ev)) = Some q \<or>
        Request (DAppGetPayloadRequest (cid (fst (step s ev)))) q \<in> set evs" .
  with s step_static [of c w ev] step_knownPort [of c w ev q] show ?case
    by (auto simp del: step.simps)
qed

text \<open>
  C1, as stated, fails: a fetch-payload request that carries the id is answered on
  whatever channel it arrives and rebinds the confirmation to that channel. Here
  channel 1 performs the handshake, then channel 2 does, and the decision that
  channel 2 sends resolves the confirmation once the session has been written.
\<close>

theorem rebinding_counterexample:
  "knownPort (fst (run [Request (DAppGetPayloadRequest ''id1'') 1] example_connect)) = Some 1 \<and>
   fst (onRequest (DAppGetPayloadRequest ''id1'') 2
          (run [Request (DAppGetPayloadRequest ''id1'') 1] example_connect)) =
     Some (Inr (Some (DAppGetPayloadResponse (ConnectPayload ''dapp'' ''https://main'' \<lparr>name = ''App''\<rparr>)))) \<and>
   knownPort (fst (run [Request (DAppGetPayloadRequest ''id1'') 1,
                        Request (DAppGetPayloadRequest ''id1'') 2] example_connect)) = Some 2 \<and>
   promise (snd (run [Request (DAppGetPayloadRequest ''id1'') 1,
                      Request (DAppGetPayloadRequest ''id1'') 2,
                      Request (DAppPermConfirmationRequest ''id1'' True (Some ''tz1a'') (Some ''edpk'')) 2,
                      Completed 0 StorageGetDone, Completed 0 StorageSetDone]
                  example_connect)) =
     Resolved (PermissionResponse ''https://main'' ''tz1a'' ''edpk'')"
  by (simp add: example_connect_def requestConfirm_def run_def onRequest_def close_defs
      setDApp_task_def setDApps_def emit_def stored_def slot_def resumed_def
      empty_world_def resolve_def)

text \<open>
  C1, amended. At any time at most one channel is bound to a confirmation: the one
  that most recently sent a fetch-payload request carrying its id; such a request is
  answered with the payload on any channel and binds that channel. Every other
  request that arrives on a channel different from the bound one is ignored: the
  listener returns nothing, and neither the confirmation nor the world changes, so the
  caller's promise is not settled. A channel that has sent no fetch-payload request
  with the id since the confirmation was opened is not the bound one, so a decision
  it sends, even with the correct id, is ignored.
\<close>

theorem channel_binding:
  "(req \<noteq> DAppGetPayloadRequest (cid c) \<and> knownPort c \<noteq> Some port \<longrightarrow>
      onRequest req port (c, w) = (Some (Inr None), c, w) \<and> step (c, w) (Request req port) = (c, w)) \<and>
   onRequest (DAppGetPayloadRequest (cid c)) port (c, w) =
     (Some (Inr (Some (DAppGetPayloadResponse (cpayload c)))), c\<lparr>knownPort := Some port\<rparr>, w) \<and>
   (run evs (requestConfirm id' p d h winId w0) = (c1, w1) \<and>
    Request (DAppGetPayloadRequest id') port \<notin> set evs \<and> req1 \<noteq> DAppGetPayloadRequest id' \<longrightarrow>
      knownPort c1 \<noteq> Some port \<and> step (c1, w1) (Request req1 port) = (c1, w1))"
proof (intro conjI impI)
  assume a: "req \<noteq> DAppGetPayloadRequest (cid c) \<and> knownPort c \<noteq> Some port"
  then show i: "onRequest req port (c, w) = (Some (Inr None), c, w)"
    by (simp add: onRequest_def)
  then show "step (c, w) (Request req port) = (c, w)" by simp
next
  show "onRequest (DAppGetPayloadRequest (cid c)) port (c, w) =
     (Some (Inr (Some (DAppGetPayloadResponse (cpayload c)))), c\<lparr>knownPort := Some port\<rparr>, w)"
    by (simp add: onRequest_def)
next
  let ?s = "requestConfirm id' p d h winId w0 :: 'a confirmation \<times> world"
  assume a: "run evs ?s = (c1, w1) \<and>
    Request (DAppGetPayloadRequest id') port \<notin> set evs \<and> req1 \<noteq> DAppGetPayloadRequest id'"
  then have c1: "c1 = fst (run evs ?s)" by simp
  have i: "cid c1 = id'" unfolding c1 using run_static [of evs ?s] by (simp add: requestConfirm_def)
  show k: "knownPort c1 \<noteq> Some port"
  proof
    assume "knownPort c1 = Some port"
    then have "knownPort (fst (run evs ?s)) = Some port" by (simp add: c1)
    from run_knownPort [OF this] a show False by (simp add: requestConfirm_def)
  qed
  with a i show "step (c1, w1) (Request req1 port) = (c1, w1)"
    by (simp add: onRequest_def)
qed

theorem channel_binding_witness:
  "step (run [Request (DAppGetPayloadRequest ''id1'') 1] example_connect)
        (Request (DAppPermConfirmationRequest ''id1'' True (Some ''tz1a'') (Some ''edpk'')) 2) =
     run [Request (DAppGetPayloadRequest ''id1'') 1] example_connect \<and>
   promise (snd (run [Request (DAppGetPayloadRequest ''id1'') 1] example_connect)) = Pending \<and>
   \<not> closing (fst (run [Request (DAppGetPayloadRequest ''id1'') 1] example_connect))"
proof -
  let ?evs = "[Request (DAppGetPayloadRequest ''id1'') (1::nat)]"
  let ?req = "DAppPermConfirmationRequest ''id1'' True (Some ''tz1a'') (Some ''edpk'')"
  have h: "run ?evs example_connect = (fst (run ?evs example_connect), snd (run ?evs example_connect)) \<and>
      Request (DAppGetPayloadRequest ''id1'') 2 \<notin> set ?evs \<and> ?req \<noteq> DAppGetPayloadRequest ''id1''"
    by simp
  from channel_binding [THEN conjunct2, THEN conjunct2, rule_format,
      OF h [unfolded example_connect_def], folded example_connect_def]
  have "step (fst (run ?evs example_connect), snd (run ?evs example_connect)) (Request ?req 2) =
          (fst (run ?evs example_connect), snd (run ?evs example_connect))" by simp
  then have 1: "step (run ?evs example_connect) (Request ?req 2) = run ?evs example_connect"
    by simp
  have 2: "promise (snd (run ?evs example_connect)) = Pending \<and>
      \<not> closing (fst (run ?evs example_connect))"
    by (simp add: example_connect_def requestConfirm_def run_def onRequest_def emit_def
        empty_world_def)
  from 1 2 show ?thesis by blast
qed

subsection \<open>What an arbiter has done when it opens a confirmation\<close>

lemma requestPermission_opened:
  assumes "requestPermission env origin req id' winId w = (Some c0, w0)"
  shows "\<exists>net meta rpc.
           req_network req = Some net \<and> req_appMeta req = Some meta \<and>
           getNetworkRPC (NETWORKS env) net = Inr rpc \<and>
           (c0, w0) =
             requestConfirm id' (ConnectPayload origin rpc meta) decline_NotGranted
               (permission_handleIntercomRequest origin id' net meta rpc) winId
               ((emit StorageGet w)\<lparr>promise := Pending\<rparr>)"
proof -
  from assms obtain net meta where nm: "req_network req = Some net" "req_appMeta req = Some meta"
    by (cases "req_network req"; cases "req_appMeta req")
       (auto simp: requestPermission_def split: if_splits)
  from assms nm obtain rpc where r: "getNetworkRPC (NETWORKS env) net = Inr rpc"
    by (cases "getNetworkRPC (NETWORKS env) net") (auto simp: requestPermission_def split: if_splits)
  from assms nm r have "(c0, w0) =
             requestConfirm id' (ConnectPayload origin rpc meta) decline_NotGranted
               (permission_handleIntercomRequest origin id' net meta rpc) winId
               ((emit StorageGet w)\<lparr>promise := Pending\<rparr>)"
    by (cases "stored w origin")
       (auto simp: requestPermission_def getDApp_eq split: if_splits prod.splits)
  with nm r show ?thesis by blast
qed

lemma requestOperation_opened:
  assumes "requestOperation env origin req id' winId w = (Some c0, w0)"
  shows "\<exists>d rpc ops.
           stored w origin = Some d \<and> op_sourcePkh req = pkh d \<and> opParams req = Some ops \<and>
           getNetworkRPC (NETWORKS env) (network d) = Inr rpc \<and>
           (c0, w0) =
             requestConfirm id'
               (ConfirmOperationsPayload origin rpc (appMeta d) (op_sourcePkh req) (publicKey d) ops)
               decline_NotGranted (operation_handleIntercomRequest id' d rpc ops) winId
               ((emit StorageGet w)\<lparr>promise := Pending\<rparr>)"
proof -
  from assms obtain ops where ops: "opParams req = Some ops" and v: "operation_valid env req = Inr True"
    by (cases "opParams req"; cases "operation_valid env req")
       (auto simp: requestOperation_def split: bool.splits)
  from assms ops v obtain d where d: "stored w origin = Some d" "op_sourcePkh req = pkh d"
    by (cases "stored w origin")
       (auto simp: requestOperation_def getDApp_eq split: if_splits)
  from assms ops v d obtain rpc where r: "getNetworkRPC (NETWORKS env) (network d) = Inr rpc"
    by (cases "getNetworkRPC (NETWORKS env) (network d)")
       (auto simp: requestOperation_def getDApp_eq)
  from assms ops v d r have "(c0, w0) =
             requestConfirm id'
               (ConfirmOperationsPayload origin rpc (appMeta d) (op_sourcePkh req) (publicKey d) ops)
               decline_NotGranted (operation_handleIntercomRequest id' d rpc ops) winId
               ((emit StorageGet w)\<lparr>promise := Pending\<rparr>)"
    by (auto simp: requestOperation_def getDApp_eq split: prod.splits)
  with ops d r show ?thesis by blast
qed

lemma requestSign_opened:
  assumes "requestSign env origin req id' winId w = (Some c0, w0)"
  shows "\<exists>d rpc.
           stored w origin = Some d \<and> sign_sourcePkh req = pkh d \<and>
           getNetworkRPC (NETWORKS env) (network d) = Inr rpc \<and>
           (c0, w0) =
             requestConfirm id'
               (SignPayload origin rpc (appMeta d) (sign_sourcePkh req) (payload (strip_0x req))
                  (build_preview env (payload (strip_0x req))))
               decline_NotGranted (sign_handleIntercomRequest id' d (payload (strip_0x req))) winId
               ((emit StorageGet w)\<lparr>promise := Pending\<rparr>)"
proof -
  from assms have v: "isAddressValid env (sign_sourcePkh (strip_0x req))" "HEX_PATTERN (payload (strip_0x req))"
    by (auto simp: requestSign_def split: if_splits)
  from assms v obtain d where d: "stored w origin = Some d" "sign_sourcePkh (strip_0x req) = pkh d"
    by (cases "stored w origin")
       (auto simp: requestSign_def getDApp_eq split: if_splits)
  from assms v d obtain rpc where r: "getNetworkRPC (NETWORKS env) (network d) = Inr rpc"
    by (cases "getNetworkRPC (NETWORKS env) (network d)")
       (auto simp: requestSign_def getDApp_eq)
  from assms v d r have "(c0, w0) =
             requestConfirm id'
               (SignPayload origin rpc (appMeta d) (sign_sourcePkh (strip_0x req)) (payload (strip_0x req))
                  (build_preview env (payload (strip_0x req))))
               decline_NotGranted (sign_handleIntercomRequest id' d (payload (strip_0x req))) winId
               ((emit StorageGet w)\<lparr>promise := Pending\<rparr>)"
    by (auto simp: requestSign_def getDApp_eq split: prod.splits)
  with d r show ?thesis by (auto simp: strip_0x_sourcePkh)
qed

text \<open>
  After any events, a confirmation opened with a quiet handler still has its id and
  its callbacks, and it fits the world; while it is open, the listener is attached
  and the promise is pending.
\<close>

lemma opened_run:
  assumes s: "(c0, w0) = requestConfirm id' p decline_NotGranted h winId w"
    and h: "quiet_handler h" and w: "promise w = Pending"
    and r: "run evs (c0, w0) = (c, w1)"
  shows "cid c = id' \<and> handleIntercomRequest c = h \<and> onDecline c = decline_NotGranted \<and>
         sound (c, w1) \<and> (\<not> closing c \<longrightarrow> requestListening c \<and> promise w1 = Pending)"
proof -
  have c0: "c0 = fst (requestConfirm id' p decline_NotGranted h winId w :: 'a confirmation \<times> world)"
    using s by (metis fst_conv)
  have "sound (requestConfirm id' p decline_NotGranted h winId w :: 'a confirmation \<times> world)"
    using h w by (rule requestConfirm_sound)
  with s have "sound (c0, w0)" by simp
  from run_sound [OF this, of evs] r have snd: "sound (c, w1)" by simp
  have st: "cid c = id' \<and> handleIntercomRequest c = h \<and> onDecline c = decline_NotGranted"
    using run_static [of evs "(c0, w0)"] r by (simp add: c0 requestConfirm_def)
  from snd have "\<not> closing c \<longrightarrow> requestListening c \<and> promise w1 = Pending"
    by (auto simp: sound_def consistent_def)
  with st snd show ?thesis by simp
qed

lemma sound_run:
  "sound (c, w) \<Longrightarrow> run evs (c, w) = (c', w') \<Longrightarrow> sound (c', w')"
  using run_sound [of "(c, w)" evs] by simp

lemma sound_step:
  "sound (c, w) \<Longrightarrow> step (c, w) ev = (c', w') \<Longrightarrow> sound (c', w')"
  using step_sound [of "(c, w)" ev] by (simp del: step.simps)

text \<open>A slot that is filled stays filled, with the same call, until its completion.\<close>

lemma slot_kept:
  assumes "slot c n = Some t" "run evs (c, w) = (c', w')" "\<forall>ev\<in>set evs. \<not> completes n ev"
  shows "slot c' n = Some t"
proof -
  from assms(1) have "n < length (inflight (fst (c, w)))" by (simp add: slot_def split: if_splits)
  from run_slot [OF this assms(3)] assms(1,2) show ?thesis by simp
qed

text \<open>A decision whose handler is suspended fills the next slot.\<close>

lemma suspended_slot:
  assumes "requestListening c" "req \<noteq> DAppGetPayloadRequest (cid c)" "knownPort c = Some port"
    and "handleIntercomRequest c req (onDecline c) w = (t, w1)" "waiting t"
  shows "step (c, w) (Request req port) = (c\<lparr>inflight := inflight c @ [t]\<rparr>, w1) \<and>
         slot (c\<lparr>inflight := inflight c @ [t]\<rparr>) (length (inflight c)) = Some t"
  using assms onRequest_handled [OF assms(2,3,4)]
  by (cases t) (simp_all add: slot_def)

lemma resumed_waiting:
  assumes "slot c n = Some t" "resume t res w = Some (t', w')" "waiting t'"
  shows "step (c, w) (Completed n res) = (c\<lparr>inflight := (inflight c)[n := t']\<rparr>, w') \<and>
         slot (c\<lparr>inflight := (inflight c)[n := t']\<rparr>) n = Some t'"
  using assms
  by (cases t') (simp_all add: resumed_def slot_def split: if_splits)

lemma resumed_returned:
  assumes "slot c n = Some t" "resume t res w = Some (Done (Inr (Some r)), w')"
  shows "step (c, w) (Completed n res) =
           (close (c\<lparr>inflight := (inflight c)[n := Done (Inr (Some r))]\<rparr>), w')"
  using assms by (simp add: resumed_def)

lemma resumed_thrown:
  assumes "slot c n = Some t" "resume t res w = Some (Done (Inl err), w')"
  shows "step (c, w) (Completed n res) = (c\<lparr>inflight := (inflight c)[n := Done (Inl err)]\<rparr>, w')"
  using assms by (simp add: resumed_def)

subsection \<open>Granting permission, then reading it back\<close>

text \<open>
  C7. Let requestPermission open a confirmation for an origin, let any events follow
  that leave it open with some channel bound, and let that channel send the approval
  carrying a non-empty account hash and public key. The handler then reads the stored
  sessions and writes them back with the new session, and is suspended at both; let
  any events of the confirmation happen while it waits (the timer, a removal of the
  window, further requests and completions of other handler calls). When the write
  has been done, the session is stored under the origin with the approved account,
  and getCurrentPermission for the origin, run on that world, returns the rpc of the
  requested network with the approved pkh and publicKey. These are the values of the
  permission response with which the promise is resolved at that moment: it is
  resolved so if it was still pending, which it is whenever the confirmation was
  still open; if a timeout or a removal of the window has rejected it in between, it
  keeps that rejection. In either case the confirmation is torn down.
\<close>

theorem grant_then_getCurrentPermission:
  assumes opened: "requestPermission env origin req id' winId w = (Some c0, w0)"
    and history: "run evs (c0, w0) = (c, w1)"
    and still_open: "\<not> closing c" and bound: "knownPort c = Some port"
    and account: "accountPublicKeyHash \<noteq> []" "accountPublicKey \<noteq> []"
    and approval: "step (c, w1)
        (Request (DAppPermConfirmationRequest id' True (Some accountPublicKeyHash) (Some accountPublicKey)) port) =
        (c2, w2)"
    and reading: "run evs2 (c2, w2) = (c3, w3)" "\<forall>ev\<in>set evs2. \<not> completes (length (inflight c)) ev"
    and was_read: "step (c3, w3) (Completed (length (inflight c)) StorageGetDone) = (c4, w4)"
    and writing: "run evs3 (c4, w4) = (c5, w5)" "\<forall>ev\<in>set evs3. \<not> completes (length (inflight c)) ev"
    and written: "step (c5, w5) (Completed (length (inflight c)) StorageSetDone) = (c6, w6)"
  shows "\<exists>net meta rpc.
           req_network req = Some net \<and> req_appMeta req = Some meta \<and>
           getNetworkRPC (NETWORKS env) net = Inr rpc \<and>
           stored w6 origin =
             Some \<lparr>network = net, appMeta = meta, pkh = accountPublicKeyHash, publicKey = accountPublicKey\<rparr> \<and>
           fst (getCurrentPermission env origin w6) =
             Inr (GetCurrentPermissionResponse (Some (Permission rpc accountPublicKeyHash accountPublicKey))) \<and>
           promise w6 = resolve (PermissionResponse rpc accountPublicKeyHash accountPublicKey) (promise w5) \<and>
           (\<not> closing c5 \<longrightarrow>
              promise w6 = Resolved (PermissionResponse rpc accountPublicKeyHash accountPublicKey)) \<and>
           closing c6 \<and>
           teardown c6 = [StopTimeout, StopRequestListening, StopWinRemovedListening, CloseWindow]"
proof -
  from requestPermission_opened [OF opened] obtain net meta rpc where
    nm: "req_network req = Some net" "req_appMeta req = Some meta"
    and rpc: "getNetworkRPC (NETWORKS env) net = Inr rpc"
    and s: "(c0, w0) =
             requestConfirm id' (ConnectPayload origin rpc meta) decline_NotGranted
               (permission_handleIntercomRequest origin id' net meta rpc) winId
               ((emit StorageGet w)\<lparr>promise := Pending\<rparr>)"
    by blast
  let ?n = "length (inflight c)"
  let ?d = "\<lparr>network = net, appMeta = meta, pkh = accountPublicKeyHash, publicKey = accountPublicKey\<rparr>"
  let ?R = "PermissionResponse rpc accountPublicKeyHash accountPublicKey"
  let ?K = "\<lambda>(newDApps :: ThanosDAppSessions) w1.
      (Done (Inr (Some DAppPermConfirmationResponse)), w1\<lparr>promise := resolve ?R (promise w1)\<rparr>)"
  let ?T = "setDApp_task origin ?d ?K"
  have "cid c = id' \<and> handleIntercomRequest c = permission_handleIntercomRequest origin id' net meta rpc \<and>
        onDecline c = decline_NotGranted \<and> sound (c, w1) \<and>
        (\<not> closing c \<longrightarrow> requestListening c \<and> promise w1 = Pending)"
    by (rule opened_run [OF s permission_handler_quiet _ history]) simp
  with still_open have f: "cid c = id'"
    "handleIntercomRequest c = permission_handleIntercomRequest origin id' net meta rpc"
    "requestListening c" and sound1: "sound (c, w1)" by simp_all
  \<comment> \<open>the approval is suspended in slot n\<close>
  have h: "handleIntercomRequest c
        (DAppPermConfirmationRequest id' True (Some accountPublicKeyHash) (Some accountPublicKey))
        (onDecline c) w1 = (?T, w1)"
    using account f(2) by simp
  have ne: "DAppPermConfirmationRequest id' True (Some accountPublicKeyHash) (Some accountPublicKey) \<noteq>
      DAppGetPayloadRequest (cid c)" by simp
  have wt: "waiting ?T" by (simp add: setDApp_task_def)
  from suspended_slot [OF f(3) ne bound h wt] approval
  have c2: "c2 = c\<lparr>inflight := inflight c @ [?T]\<rparr>" "w2 = w1" and slot2: "slot c2 ?n = Some ?T"
    by simp_all
  have sound2: "sound (c2, w2)" by (rule sound_step [OF sound1 approval])
  \<comment> \<open>it is still there when the read completes\<close>
  have slot3: "slot c3 ?n = Some ?T" by (rule slot_kept [OF slot2 reading])
  have sound3: "sound (c3, w3)" by (rule sound_run [OF sound2 reading(1)])
  let ?new = "(stored w3)(origin \<mapsto> ?d)"
  let ?T2 = "AwaitStorageSet ?new (?K ?new)"
  have r3: "resume ?T StorageGetDone w3 = Some (?T2, emit StorageGet w3)"
    by (simp add: setDApp_task_def)
  from resumed_waiting [OF slot3 r3] was_read
  have slot4: "slot c4 ?n = Some ?T2" by simp
  have sound4: "sound (c4, w4)" by (rule sound_step [OF sound3 was_read])
  \<comment> \<open>and when the write completes\<close>
  have slot5: "slot c5 ?n = Some ?T2" by (rule slot_kept [OF slot4 writing])
  have sound5: "sound (c5, w5)" by (rule sound_run [OF sound4 writing(1)])
  let ?w6 = "(setDApps ?new w5)\<lparr>promise := resolve ?R (promise (setDApps ?new w5))\<rparr>"
  have r5: "resume ?T2 StorageSetDone w5 = Some (Done (Inr (Some DAppPermConfirmationResponse)), ?w6)"
    by simp
  from resumed_returned [OF slot5 r5] written
  have c6: "c6 = close (c5\<lparr>inflight := (inflight c5)[?n := Done (Inr (Some DAppPermConfirmationResponse))]\<rparr>)"
    and w6: "w6 = ?w6" by simp_all
  have st: "stored w6 origin = Some ?d"
    by (simp add: w6 stored_def setDApps_def emit_def)
  have p: "promise w6 = resolve ?R (promise w5)"
    by (simp add: w6 setDApps_def emit_def)
  from sound5 have "closing c5 \<or> promise w5 = Pending" by (simp add: sound_def)
  with p have p': "\<not> closing c5 \<longrightarrow> promise w6 = Resolved ?R"
    by (auto simp: resolve_def)
  have g: "fst (getCurrentPermission env origin w6) =
      Inr (GetCurrentPermissionResponse (Some (Permission rpc accountPublicKeyHash accountPublicKey)))"
    using st rpc by (simp add: getCurrentPermission_def getDApp_eq)
  have "sound (c6, w6)" by (rule sound_step [OF sound5 written])
  then have "consistent c6" by (simp add: sound_def)
  moreover have cl: "closing c6" by (simp add: c6 close_closing)
  ultimately have td: "teardown c6 = [StopTimeout, StopRequestListening, StopWinRemovedListening, CloseWindow]"
    by (rule consistent_closing_teardown)
  from nm rpc st g p p' cl td show ?thesis by blast
qed

theorem grant_then_getCurrentPermission_witness:
  "promise (snd (run [Request (DAppGetPayloadRequest ''id1'') 1,
                      Request (DAppPermConfirmationRequest ''id1'' True (Some ''tz1b'') (Some ''edpk2'')) 1,
                      Completed 0 StorageGetDone, Completed 0 StorageSetDone] example_connect)) =
     Resolved (PermissionResponse ''https://main'' ''tz1b'' ''edpk2'') \<and>
   fst (getCurrentPermission example_env ''dapp''
      (snd (run [Request (DAppGetPayloadRequest ''id1'') 1,
                 Request (DAppPermConfirmationRequest ''id1'' True (Some ''tz1b'') (Some ''edpk2'')) 1,
                 Completed 0 StorageGetDone, Completed 0 StorageSetDone] example_connect))) =
     Inr (GetCurrentPermissionResponse (Some (Permission ''https://main'' ''tz1b'' ''edpk2''))) \<and>
   promise (snd (run [Request (DAppGetPayloadRequest ''id1'') 1,
                      Request (DAppPermConfirmationRequest ''id1'' True (Some ''tz1b'') (Some ''edpk2'')) 1,
                      Completed 0 StorageGetDone, TimerFired, Completed 0 StorageSetDone]
                  example_connect)) =
     Rejected (Error (ErrorType NotGranted)) \<and>
   fst (getCurrentPermission example_env ''dapp''
      (snd (run [Request (DAppGetPayloadRequest ''id1'') 1,
                 Request (DAppPermConfirmationRequest ''id1'' True (Some ''tz1b'') (Some ''edpk2'')) 1,
                 Completed 0 StorageGetDone, TimerFired, Completed 0 StorageSetDone]
             example_connect))) =
     Inr (GetCurrentPermissionResponse (Some (Permission ''https://main'' ''tz1b'' ''edpk2'')))"
proof -
  let ?req = "\<lparr>req_network = Some (NetId ''mainnet''), req_appMeta = Some \<lparr>name = ''App''\<rparr>,
               force = False\<rparr>"
  let ?hs = "Request (DAppGetPayloadRequest ''id1'') (1::nat)"
  let ?yes = "Request (DAppPermConfirmationRequest ''id1'' True (Some ''tz1b'') (Some ''edpk2'')) (1::nat)"
  let ?R1 = "run [?hs] example_connect"
  let ?n = "length (inflight (fst ?R1))"
  let ?S2 = "step ?R1 ?yes"
  let ?S4 = "step ?S2 (Completed ?n StorageGetDone)"
  let ?A = "step ?S4 (Completed ?n StorageSetDone)"
  let ?S5 = "run [TimerFired] ?S4"
  let ?B = "step ?S5 (Completed ?n StorageSetDone)"
  let ?R = "PermissionResponse ''https://main'' ''tz1b'' ''edpk2''"
  have opened: "requestPermission example_env ''dapp'' ?req ''id1'' (Some 7) empty_world =
      (Some (fst example_connect), snd example_connect)"
    by (simp add: requestPermission_def example_env_def getDApp_eq stored_def empty_world_def
        example_connect_def requestConfirm_def)
  have history: "run [?hs] (fst example_connect, snd example_connect) = (fst ?R1, snd ?R1)" by simp
  have R: "\<not> closing (fst ?R1)" "knownPort (fst ?R1) = Some 1"
    by (simp_all add: example_connect_def requestConfirm_def run_def onRequest_def)
  have n: "?n = 0"
    by (simp add: example_connect_def requestConfirm_def run_def onRequest_def)
  have a: "''tz1b'' \<noteq> []" "''edpk2'' \<noteq> []" by simp_all
  have approval: "step (fst ?R1, snd ?R1) ?yes = (fst ?S2, snd ?S2)" by simp
  have none: "run [] (fst ?S2, snd ?S2) = (fst ?S2, snd ?S2)" "\<forall>ev\<in>set []. \<not> completes ?n (ev :: nat event)"
    by (simp_all add: run_Nil)
  have was_read: "step (fst ?S2, snd ?S2) (Completed ?n StorageGetDone) = (fst ?S4, snd ?S4)" by simp
  have none4: "run [] (fst ?S4, snd ?S4) = (fst ?S4, snd ?S4)" by (simp add: run_Nil)
  have written: "step (fst ?S4, snd ?S4) (Completed ?n StorageSetDone) = (fst ?A, snd ?A)" by simp
  have timer: "run [TimerFired] (fst ?S4, snd ?S4) = (fst ?S5, snd ?S5)"
    "\<forall>ev\<in>set [TimerFired]. \<not> completes ?n (ev :: nat event)" by simp_all
  have written': "step (fst ?S5, snd ?S5) (Completed ?n StorageSetDone) = (fst ?B, snd ?B)" by simp
  have rpc: "\<And>net rpc. req_network ?req = Some net \<Longrightarrow>
      getNetworkRPC (NETWORKS example_env) net = Inr rpc \<Longrightarrow> rpc = ''https://main''"
    by (auto simp: example_env_def)
  \<comment> \<open>nothing happens while the handler waits\<close>
  from grant_then_getCurrentPermission
    [OF opened history R a approval none was_read none4 none(2) written]
  obtain net meta rpc1 where 1: "req_network ?req = Some net"
    "getNetworkRPC (NETWORKS example_env) net = Inr rpc1"
    "fst (getCurrentPermission example_env ''dapp'' (snd ?A)) =
       Inr (GetCurrentPermissionResponse (Some (Permission rpc1 ''tz1b'' ''edpk2'')))"
    "\<not> closing (fst ?S4) \<longrightarrow> promise (snd ?A) = Resolved (PermissionResponse rpc1 ''tz1b'' ''edpk2'')"
    by blast
  have open4: "\<not> closing (fst ?S4)"
    by (simp add: n example_connect_def requestConfirm_def run_def onRequest_def setDApp_task_def
        slot_def resumed_def)
  from 1 rpc open4 have A: "promise (snd ?A) = Resolved ?R \<and>
      fst (getCurrentPermission example_env ''dapp'' (snd ?A)) =
        Inr (GetCurrentPermissionResponse (Some (Permission ''https://main'' ''tz1b'' ''edpk2'')))"
    by auto
  \<comment> \<open>the timer fires while the write is under way\<close>
  from grant_then_getCurrentPermission
    [OF opened history R a approval none was_read timer written']
  obtain net' meta' rpc2 where 2: "req_network ?req = Some net'"
    "getNetworkRPC (NETWORKS example_env) net' = Inr rpc2"
    "fst (getCurrentPermission example_env ''dapp'' (snd ?B)) =
       Inr (GetCurrentPermissionResponse (Some (Permission rpc2 ''tz1b'' ''edpk2'')))"
    "promise (snd ?B) = resolve (PermissionResponse rpc2 ''tz1b'' ''edpk2'') (promise (snd ?S5))"
    by blast
  have p5: "promise (snd ?S5) = Rejected (Error (ErrorType NotGranted))"
    by (simp add: n example_connect_def requestConfirm_def run_def onRequest_def setDApp_task_def
        slot_def resumed_def declineAndClose_def decline_NotGranted_def reject_def emit_def
        empty_world_def)
  from 2 rpc p5 have B: "promise (snd ?B) = Rejected (Error (ErrorType NotGranted)) \<and>
      fst (getCurrentPermission example_env ''dapp'' (snd ?B)) =
        Inr (GetCurrentPermissionResponse (Some (Permission ''https://main'' ''tz1b'' ''edpk2'')))"
    by (auto simp: resolve_def)
  have eA: "run [?hs, ?yes, Completed 0 StorageGetDone, Completed 0 StorageSetDone] example_connect = ?A"
    by (simp only: n) (simp add: run_def del: step.simps)
  have eB: "run [?hs, ?yes, Completed 0 StorageGetDone, TimerFired, Completed 0 StorageSetDone]
      example_connect = ?B"
    by (simp only: n) (simp add: run_def del: step.simps)
  from A B show ?thesis unfolding eA eB by blast
qed

subsection \<open>Failure of the approved action\<close>

lemma example_operation_opened:
  "requestOperation example_env ''dapp'' example_operation_request ''id1'' (Some 7) example_world =
     (Some (fst example_operation), snd example_operation)"
  by (simp add: requestOperation_def operation_valid_def example_operation_request_def
      example_env_def getDApp_eq example_stored example_session_def example_operation_def
      requestConfirm_def)

lemma example_operation_bound:
  "\<not> closing (fst (run [Request (DAppGetPayloadRequest ''id1'') 1] example_operation)) \<and>
   knownPort (fst (run [Request (DAppGetPayloadRequest ''id1'') 1] example_operation)) = Some 1 \<and>
   length (inflight (fst (run [Request (DAppGetPayloadRequest ''id1'') 1] example_operation))) = 0"
  by (simp add: example_operation_def requestConfirm_def run_def onRequest_def)

lemma example_sign_payload:
  "payload (strip_0x example_sign_request) = ''0501000000084d657373616765'' \<and>
   sign_sourcePkh (strip_0x example_sign_request) = ''tz1a'' \<and>
   HEX_PATTERN ''0501000000084d657373616765'' \<and>
   \<not> TEZ_MSG_SIGN_PATTERN ''0501000000084d657373616765''"
  by (simp add: example_sign_request_def strip_0x_def HEX_PATTERN_def hexdigit_def
      TEZ_MSG_SIGN_PATTERN_def)

lemma example_sign_opened:
  "requestSign example_env ''dapp'' example_sign_request ''id1'' (Some 7) example_world =
     (Some (fst example_sign), snd example_sign)"
proof -
  have "build_preview example_env ''0501000000084d657373616765'' = Null"
    using example_sign_payload by (simp add: build_preview_def example_env_def)
  then show ?thesis
    using example_sign_payload
    by (simp add: requestSign_def example_env_def getDApp_eq example_stored example_session_def
        example_sign_def requestConfirm_def)
qed

lemma example_sign_bound:
  "\<not> closing (fst (run [Request (DAppGetPayloadRequest ''id1'') 1] example_sign)) \<and>
   knownPort (fst (run [Request (DAppGetPayloadRequest ''id1'') 1] example_sign)) = Some 1 \<and>
   length (inflight (fst (run [Request (DAppGetPayloadRequest ''id1'') 1] example_sign))) = 0"
  by (simp add: example_sign_def requestConfirm_def run_def onRequest_def)

lemmas example_run_defs =
  requestConfirm_def run_def onRequest_def slot_def resumed_def emit_def example_session_def

text \<open>
  C3, as stated, fails: when the vault fails with anything but a
  TezosOperationError, the handler rethrows it to the sender of the decision; the
  caller's promise stays pending and the confirmation stays open, with no teardown.
\<close>

theorem vault_failure_counterexample:
  "requestOperation example_env ''dapp'' example_operation_request ''id1'' (Some 7) example_world =
     (Some (fst example_operation), snd example_operation) \<and>
   slot (fst (run [Request (DAppGetPayloadRequest ''id1'') 1,
                   Request (DAppOpsConfirmationRequest ''id1'' True) 1,
                   Completed 0 (SendOperationsDone (Inl (Error (Text ''locked''))))]
               example_operation)) 0 = Some (Done (Inl (Error (Text ''locked'')))) \<and>
   promise (snd (run [Request (DAppGetPayloadRequest ''id1'') 1,
                      Request (DAppOpsConfirmationRequest ''id1'' True) 1,
                      Completed 0 (SendOperationsDone (Inl (Error (Text ''locked''))))]
                  example_operation)) = Pending \<and>
   \<not> closing (fst (run [Request (DAppGetPayloadRequest ''id1'') 1,
                        Request (DAppOpsConfirmationRequest ''id1'' True) 1,
                        Completed 0 (SendOperationsDone (Inl (Error (Text ''locked''))))]
                    example_operation)) \<and>
   teardown (fst (run [Request (DAppGetPayloadRequest ''id1'') 1,
                       Request (DAppOpsConfirmationRequest ''id1'' True) 1,
                       Completed 0 (SendOperationsDone (Inl (Error (Text ''locked''))))]
                   example_operation)) = []"
  using example_operation_opened
  by (simp add: example_operation_def example_run_defs operation_after_send_def)

text \<open>
  The confirmation is then still usable: a second approval calls the vault again,
  and if the vault succeeds this time the caller's promise is resolved.
\<close>

lemma retry_after_vault_failure:
  "promise (snd (run [Request (DAppGetPayloadRequest ''id1'') 1,
                      Request (DAppOpsConfirmationRequest ''id1'' True) 1,
                      Completed 0 (SendOperationsDone (Inl (Error (Text ''locked'')))),
                      Request (DAppOpsConfirmationRequest ''id1'' True) 1,
                      Completed 1 (SendOperationsDone (Inr (OpResult ''oo1'' ''applied''))),
                      Completed 1 (LoadChainIdDone (Inl TypeError))]
                  example_operation)) = Resolved (OperationResponse ''oo1'')"
  by (simp add: example_operation_def example_run_defs operation_after_send_def
      operation_after_chainId_def operation_resolve_def resolve_def close_defs
      nth_append)

text \<open>
  C3, amended. Let requestOperation (or requestSign) open a confirmation, let any
  events follow that leave it open with a channel bound, and let that channel send
  the approval: the handler calls the vault and is suspended; let any events of the
  confirmation happen while it waits. If the submission then fails with a
  TezosOperationError, the decision is answered, the confirmation is torn down (if it
  was not already) and the caller's promise is rejected with that error, its message
  replaced by the TezosOperation code, unless it has been settled in the meantime; it
  has not been while the confirmation was still open. If the submission fails with any
  other error, or if signing in requestSign fails with any error, the error is
  rethrown unchanged to the sender of the decision, and nothing else changes: the
  caller's promise is not settled by it and the confirmation is not closed by it.
\<close>

theorem approved_action_failure:
  "(requestOperation env origin oreq id' winId w = (Some c0, w0) \<and> run evs (c0, w0) = (c, w1) \<and>
    \<not> closing c \<and> knownPort c = Some port \<and>
    step (c, w1) (Request (DAppOpsConfirmationRequest id' True) port) = (c2, w2) \<and>
    run evs2 (c2, w2) = (c3, w3) \<and> (\<forall>ev\<in>set evs2. \<not> completes (length (inflight c)) ev) \<longrightarrow>
      (\<exists>d rpc ops.
         stored w origin = Some d \<and> getNetworkRPC (NETWORKS env) (network d) = Inr rpc \<and>
         opParams oreq = Some ops \<and>
         slot c3 (length (inflight c)) =
           Some (AwaitSendOperations (pkh d) rpc ops (operation_after_send d rpc)) \<and>
         (\<not> closing c3 \<longrightarrow> promise w3 = Pending) \<and>
         (\<forall>m errs.
            step (c3, w3)
                (Completed (length (inflight c)) (SendOperationsDone (Inl (TezosOperationError m errs)))) =
              (close (c3\<lparr>inflight :=
                            (inflight c3)[length (inflight c) := Done (Inr (Some DAppOpsConfirmationResponse))]\<rparr>),
               w3\<lparr>promise := reject (TezosOperationError (ErrorType TezosOperation) errs) (promise w3)\<rparr>)) \<and>
         teardown (close (c3\<lparr>inflight :=
                            (inflight c3)[length (inflight c) := Done (Inr (Some DAppOpsConfirmationResponse))]\<rparr>)) =
           [StopTimeout, StopRequestListening, StopWinRemovedListening, CloseWindow] \<and>
         (\<forall>e. \<not> isTezosOperationError e \<longrightarrow>
            step (c3, w3) (Completed (length (inflight c)) (SendOperationsDone (Inl e))) =
              (c3\<lparr>inflight := (inflight c3)[length (inflight c) := Done (Inl e)]\<rparr>, w3)))) \<and>
   (requestSign env origin sreq id' winId w = (Some c0, w0) \<and> run evs (c0, w0) = (c, w1) \<and>
    \<not> closing c \<and> knownPort c = Some port \<and>
    step (c, w1) (Request (DAppSignConfirmationRequest id' True) port) = (c2, w2) \<and>
    run evs2 (c2, w2) = (c3, w3) \<and> (\<forall>ev\<in>set evs2. \<not> completes (length (inflight c)) ev) \<longrightarrow>
      (\<exists>d. stored w origin = Some d \<and>
         slot c3 (length (inflight c)) =
           Some (AwaitSign (pkh d) (payload (strip_0x sreq)) sign_after) \<and>
         (\<forall>e. step (c3, w3) (Completed (length (inflight c)) (SignDone (Inl e))) =
              (c3\<lparr>inflight := (inflight c3)[length (inflight c) := Done (Inl e)]\<rparr>, w3))))"
proof (intro conjI impI)
  let ?n = "length (inflight c)"
  let ?four = "[StopTimeout, StopRequestListening, StopWinRemovedListening, CloseWindow]"
  assume a: "requestOperation env origin oreq id' winId w = (Some c0, w0) \<and> run evs (c0, w0) = (c, w1) \<and>
    \<not> closing c \<and> knownPort c = Some port \<and>
    step (c, w1) (Request (DAppOpsConfirmationRequest id' True) port) = (c2, w2) \<and>
    run evs2 (c2, w2) = (c3, w3) \<and> (\<forall>ev\<in>set evs2. \<not> completes (length (inflight c)) ev)"
  then have opened: "requestOperation env origin oreq id' winId w = (Some c0, w0)"
    and history: "run evs (c0, w0) = (c, w1)" and still_open: "\<not> closing c"
    and bound: "knownPort c = Some port"
    and approval: "step (c, w1) (Request (DAppOpsConfirmationRequest id' True) port) = (c2, w2)"
    and waiting': "run evs2 (c2, w2) = (c3, w3)" "\<forall>ev\<in>set evs2. \<not> completes ?n ev"
    by simp_all
  from requestOperation_opened [OF opened] obtain d rpc ops where
    d: "stored w origin = Some d" "getNetworkRPC (NETWORKS env) (network d) = Inr rpc"
      "opParams oreq = Some ops"
    and s: "(c0, w0) =
             requestConfirm id'
               (ConfirmOperationsPayload origin rpc (appMeta d) (op_sourcePkh oreq) (publicKey d) ops)
               decline_NotGranted (operation_handleIntercomRequest id' d rpc ops) winId
               ((emit StorageGet w)\<lparr>promise := Pending\<rparr>)"
    by blast
  let ?T = "AwaitSendOperations (pkh d) rpc ops (operation_after_send d rpc)"
  have "cid c = id' \<and> handleIntercomRequest c = operation_handleIntercomRequest id' d rpc ops \<and>
        onDecline c = decline_NotGranted \<and> sound (c, w1) \<and>
        (\<not> closing c \<longrightarrow> requestListening c \<and> promise w1 = Pending)"
    by (rule opened_run [OF s operation_handler_quiet _ history]) simp
  with still_open have f: "cid c = id'"
    "handleIntercomRequest c = operation_handleIntercomRequest id' d rpc ops"
    "requestListening c" and sound1: "sound (c, w1)" by simp_all
  have h: "handleIntercomRequest c (DAppOpsConfirmationRequest id' True) (onDecline c) w1 =
      (?T, emit (VaultSendOperations (pkh d) rpc ops) w1)"
    using f(2) by simp
  have ne: "DAppOpsConfirmationRequest id' True \<noteq> DAppGetPayloadRequest (cid c)" by simp
  have wt: "waiting ?T" by simp
  from suspended_slot [OF f(3) ne bound h wt] approval
  have slot2: "slot c2 ?n = Some ?T" by simp
  have slot3: "slot c3 ?n = Some ?T" by (rule slot_kept [OF slot2 waiting'])
  have sound3: "sound (c3, w3)"
    by (rule sound_run [OF sound_step [OF sound1 approval] waiting'(1)])
  then have pend: "\<not> closing c3 \<longrightarrow> promise w3 = Pending" by (auto simp: sound_def)
  let ?c4 = "c3\<lparr>inflight := (inflight c3)[?n := Done (Inr (Some DAppOpsConfirmationResponse))]\<rparr>"
  have tez: "\<forall>m errs.
            step (c3, w3) (Completed ?n (SendOperationsDone (Inl (TezosOperationError m errs)))) =
              (close ?c4,
               w3\<lparr>promise := reject (TezosOperationError (ErrorType TezosOperation) errs) (promise w3)\<rparr>)"
  proof (intro allI)
    fix m errs
    have "resume ?T (SendOperationsDone (Inl (TezosOperationError m errs))) w3 =
        Some (Done (Inr (Some DAppOpsConfirmationResponse)),
              w3\<lparr>promise := reject (TezosOperationError (ErrorType TezosOperation) errs) (promise w3)\<rparr>)"
      by (simp add: operation_after_send_def)
    from resumed_returned [OF slot3 this]
    show "step (c3, w3) (Completed ?n (SendOperationsDone (Inl (TezosOperationError m errs)))) =
              (close ?c4,
               w3\<lparr>promise := reject (TezosOperationError (ErrorType TezosOperation) errs) (promise w3)\<rparr>)" .
  qed
  from sound3 have "consistent (close ?c4)"
    by (simp add: sound_def close_consistent inflight_consistent)
  then have td: "teardown (close ?c4) = ?four"
    by (rule consistent_closing_teardown) (rule close_closing)
  have other: "\<forall>e. \<not> isTezosOperationError e \<longrightarrow>
            step (c3, w3) (Completed ?n (SendOperationsDone (Inl e))) =
              (c3\<lparr>inflight := (inflight c3)[?n := Done (Inl e)]\<rparr>, w3)"
  proof (intro allI impI)
    fix e
    assume "\<not> isTezosOperationError e"
    then have "resume ?T (SendOperationsDone (Inl e)) w3 = Some (Done (Inl e), w3)"
      by (cases e) (simp_all add: operation_after_send_def)
    from resumed_thrown [OF slot3 this]
    show "step (c3, w3) (Completed ?n (SendOperationsDone (Inl e))) =
              (c3\<lparr>inflight := (inflight c3)[?n := Done (Inl e)]\<rparr>, w3)" .
  qed
  from d slot3 pend tez td other show "\<exists>d rpc ops.
         stored w origin = Some d \<and> getNetworkRPC (NETWORKS env) (network d) = Inr rpc \<and>
         opParams oreq = Some ops \<and>
         slot c3 (length (inflight c)) =
           Some (AwaitSendOperations (pkh d) rpc ops (operation_after_send d rpc)) \<and>
         (\<not> closing c3 \<longrightarrow> promise w3 = Pending) \<and>
         (\<forall>m errs.
            step (c3, w3)
                (Completed (length (inflight c)) (SendOperationsDone (Inl (TezosOperationError m errs)))) =
              (close (c3\<lparr>inflight :=
                            (inflight c3)[length (inflight c) := Done (Inr (Some DAppOpsConfirmationResponse))]\<rparr>),
               w3\<lparr>promise := reject (TezosOperationError (ErrorType TezosOperation) errs) (promise w3)\<rparr>)) \<and>
         teardown (close (c3\<lparr>inflight :=
                            (inflight c3)[length (inflight c) := Done (Inr (Some DAppOpsConfirmationResponse))]\<rparr>)) =
           [StopTimeout, StopRequestListening, StopWinRemovedListening, CloseWindow] \<and>
         (\<forall>e. \<not> isTezosOperationError e \<longrightarrow>
            step (c3, w3) (Completed (length (inflight c)) (SendOperationsDone (Inl e))) =
              (c3\<lparr>inflight := (inflight c3)[length (inflight c) := Done (Inl e)]\<rparr>, w3))"
    by blast
next
  let ?n = "length (inflight c)"
  assume a: "requestSign env origin sreq id' winId w = (Some c0, w0) \<and> run evs (c0, w0) = (c, w1) \<and>
    \<not> closing c \<and> knownPort c = Some port \<and>
    step (c, w1) (Request (DAppSignConfirmationRequest id' True) port) = (c2, w2) \<and>
    run evs2 (c2, w2) = (c3, w3) \<and> (\<forall>ev\<in>set evs2. \<not> completes (length (inflight c)) ev)"
  then have opened: "requestSign env origin sreq id' winId w = (Some c0, w0)"
    and history: "run evs (c0, w0) = (c, w1)" and still_open: "\<not> closing c"
    and bound: "knownPort c = Some port"
    and approval: "step (c, w1) (Request (DAppSignConfirmationRequest id' True) port) = (c2, w2)"
    and waiting': "run evs2 (c2, w2) = (c3, w3)" "\<forall>ev\<in>set evs2. \<not> completes ?n ev"
    by simp_all
  from requestSign_opened [OF opened] obtain d rpc where
    d: "stored w origin = Some d"
    and s: "(c0, w0) =
             requestConfirm id'
               (SignPayload origin rpc (appMeta d) (sign_sourcePkh sreq) (payload (strip_0x sreq))
                  (build_preview env (payload (strip_0x sreq))))
               decline_NotGranted (sign_handleIntercomRequest id' d (payload (strip_0x sreq))) winId
               ((emit StorageGet w)\<lparr>promise := Pending\<rparr>)"
    by blast
  let ?T = "AwaitSign (pkh d) (payload (strip_0x sreq)) sign_after"
  have "cid c = id' \<and>
        handleIntercomRequest c = sign_handleIntercomRequest id' d (payload (strip_0x sreq)) \<and>
        onDecline c = decline_NotGranted \<and> sound (c, w1) \<and>
        (\<not> closing c \<longrightarrow> requestListening c \<and> promise w1 = Pending)"
    by (rule opened_run [OF s sign_handler_quiet _ history]) simp
  with still_open have f: "cid c = id'"
    "handleIntercomRequest c = sign_handleIntercomRequest id' d (payload (strip_0x sreq))"
    "requestListening c" by simp_all
  have h: "handleIntercomRequest c (DAppSignConfirmationRequest id' True) (onDecline c) w1 =
      (?T, emit (VaultSign (pkh d) (payload (strip_0x sreq))) w1)"
    using f(2) by simp
  have ne: "DAppSignConfirmationRequest id' True \<noteq> DAppGetPayloadRequest (cid c)" by simp
  have wt: "waiting ?T" by simp
  from suspended_slot [OF f(3) ne bound h wt] approval
  have slot2: "slot c2 ?n = Some ?T" by simp
  have slot3: "slot c3 ?n = Some ?T" by (rule slot_kept [OF slot2 waiting'])
  have "\<forall>e. step (c3, w3) (Completed ?n (SignDone (Inl e))) =
              (c3\<lparr>inflight := (inflight c3)[?n := Done (Inl e)]\<rparr>, w3)"
  proof (intro allI)
    fix e
    have "resume ?T (SignDone (Inl e)) w3 = Some (Done (Inl e), w3)"
      by (simp add: sign_after_def)
    from resumed_thrown [OF slot3 this]
    show "step (c3, w3) (Completed ?n (SignDone (Inl e))) =
              (c3\<lparr>inflight := (inflight c3)[?n := Done (Inl e)]\<rparr>, w3)" .
  qed
  with d slot3 show "\<exists>d. stored w origin = Some d \<and>
         slot c3 (length (inflight c)) =
           Some (AwaitSign (pkh d) (payload (strip_0x sreq)) sign_after) \<and>
         (\<forall>e. step (c3, w3) (Completed (length (inflight c)) (SignDone (Inl e))) =
              (c3\<lparr>inflight := (inflight c3)[length (inflight c) := Done (Inl e)]\<rparr>, w3))"
    by blast
qed

theorem approved_action_failure_witness:
  "promise (snd (run [Request (DAppGetPayloadRequest ''id1'') 1,
                      Request (DAppOpsConfirmationRequest ''id1'' True) 1,
                      Completed 0 (SendOperationsDone (Inl (TezosOperationError (Text ''boom'') ''errs'')))]
                  example_operation)) =
     Rejected (TezosOperationError (ErrorType TezosOperation) ''errs'') \<and>
   teardown (fst (run [Request (DAppGetPayloadRequest ''id1'') 1,
                       Request (DAppOpsConfirmationRequest ''id1'' True) 1,
                       Completed 0 (SendOperationsDone (Inl (TezosOperationError (Text ''boom'') ''errs'')))]
                   example_operation)) =
     [StopTimeout, StopRequestListening, StopWinRemovedListening, CloseWindow] \<and>
   run [Request (DAppGetPayloadRequest ''id1'') 1,
        Request (DAppOpsConfirmationRequest ''id1'' True) 1,
        Completed 0 (SendOperationsDone (Inl (Error (Text ''locked''))))] example_operation =
     (fst (run [Request (DAppGetPayloadRequest ''id1'') 1,
                Request (DAppOpsConfirmationRequest ''id1'' True) 1] example_operation)
        \<lparr>inflight := [Done (Inl (Error (Text ''locked'')))]\<rparr>,
      snd (run [Request (DAppGetPayloadRequest ''id1'') 1,
                Request (DAppOpsConfirmationRequest ''id1'' True) 1] example_operation)) \<and>
   run [Request (DAppGetPayloadRequest ''id1'') 1,
        Request (DAppSignConfirmationRequest ''id1'' True) 1,
        Completed 0 (SignDone (Inl (Error (Text ''locked''))))] example_sign =
     (fst (run [Request (DAppGetPayloadRequest ''id1'') 1,
                Request (DAppSignConfirmationRequest ''id1'' True) 1] example_sign)
        \<lparr>inflight := [Done (Inl (Error (Text ''locked'')))]\<rparr>,
      snd (run [Request (DAppGetPayloadRequest ''id1'') 1,
                Request (DAppSignConfirmationRequest ''id1'' True) 1] example_sign))"
proof -
  let ?hs = "Request (DAppGetPayloadRequest ''id1'') (1::nat)"
  let ?yes = "Request (DAppOpsConfirmationRequest ''id1'' True) (1::nat)"
  let ?sig = "Request (DAppSignConfirmationRequest ''id1'' True) (1::nat)"
  let ?tez = "SendOperationsDone (Inl (TezosOperationError (Text ''boom'') ''errs''))"
  let ?locked = "SendOperationsDone (Inl (Error (Text ''locked'')))"
  let ?slocked = "SignDone (Inl (Error (Text ''locked'')))"
  let ?R1 = "run [?hs] example_operation"
  let ?n = "length (inflight (fst ?R1))"
  let ?S2 = "step ?R1 ?yes"
  let ?Q1 = "run [?hs] example_sign"
  let ?m = "length (inflight (fst ?Q1))"
  let ?Q2 = "step ?Q1 ?sig"
  have n: "?n = 0" using example_operation_bound by simp
  have m: "?m = 0" using example_sign_bound by simp
  have prem: "requestOperation example_env ''dapp'' example_operation_request ''id1'' (Some 7) example_world =
        (Some (fst example_operation), snd example_operation) \<and>
      run [?hs] (fst example_operation, snd example_operation) = (fst ?R1, snd ?R1) \<and>
      \<not> closing (fst ?R1) \<and> knownPort (fst ?R1) = Some 1 \<and>
      step (fst ?R1, snd ?R1) ?yes = (fst ?S2, snd ?S2) \<and>
      run [] (fst ?S2, snd ?S2) = (fst ?S2, snd ?S2) \<and>
      (\<forall>ev\<in>set []. \<not> completes ?n (ev :: nat event))"
    using example_operation_opened example_operation_bound by (simp add: run_Nil)
  from approved_action_failure [THEN conjunct1, THEN mp, OF prem]
  obtain d rpc ops where 1:
    "\<not> closing (fst ?S2) \<longrightarrow> promise (snd ?S2) = Pending"
    "step (fst ?S2, snd ?S2) (Completed ?n ?tez) =
       (close (fst ?S2\<lparr>inflight := (inflight (fst ?S2))[?n := Done (Inr (Some DAppOpsConfirmationResponse))]\<rparr>),
        snd ?S2\<lparr>promise := reject (TezosOperationError (ErrorType TezosOperation) ''errs'') (promise (snd ?S2))\<rparr>)"
    "teardown (close (fst ?S2\<lparr>inflight := (inflight (fst ?S2))[?n := Done (Inr (Some DAppOpsConfirmationResponse))]\<rparr>)) =
       [StopTimeout, StopRequestListening, StopWinRemovedListening, CloseWindow]"
    "\<not> isTezosOperationError (Error (Text ''locked'')) \<longrightarrow>
     step (fst ?S2, snd ?S2) (Completed ?n ?locked) =
       (fst ?S2\<lparr>inflight := (inflight (fst ?S2))[?n := Done (Inl (Error (Text ''locked'')))]\<rparr>, snd ?S2)"
    by blast
  have open2: "\<not> closing (fst ?S2)" "length (inflight (fst ?S2)) = 1"
    by (simp_all add: example_operation_def example_run_defs)
  have e2: "run [?hs, ?yes] example_operation = ?S2"
    by (simp add: run_def del: step.simps)
  have eT: "run [?hs, ?yes, Completed 0 ?tez] example_operation = step (fst ?S2, snd ?S2) (Completed ?n ?tez)"
    by (simp only: n) (simp add: run_def del: step.simps)
  have eL: "run [?hs, ?yes, Completed 0 ?locked] example_operation =
      step (fst ?S2, snd ?S2) (Completed ?n ?locked)"
    by (simp only: n) (simp add: run_def del: step.simps)
  have A: "promise (snd (run [?hs, ?yes, Completed 0 ?tez] example_operation)) =
      Rejected (TezosOperationError (ErrorType TezosOperation) ''errs'')"
    using 1(1) open2(1) by (simp only: eT 1(2)) (simp add: reject_def)
  have B: "teardown (fst (run [?hs, ?yes, Completed 0 ?tez] example_operation)) =
      [StopTimeout, StopRequestListening, StopWinRemovedListening, CloseWindow]"
    using 1(3) by (simp only: eT 1(2)) simp
  have l2: "(inflight (fst ?S2))[?n := Done (Inl (Error (Text ''locked'')))] =
      [Done (Inl (Error (Text ''locked'')))]"
    using open2(2) by (simp only: n) (cases "inflight (fst ?S2)", simp_all)
  have C: "run [?hs, ?yes, Completed 0 ?locked] example_operation =
      (fst (run [?hs, ?yes] example_operation)\<lparr>inflight := [Done (Inl (Error (Text ''locked'')))]\<rparr>,
       snd (run [?hs, ?yes] example_operation))"
    using 1(4) by (simp only: eL e2 l2) simp
  have prem': "requestSign example_env ''dapp'' example_sign_request ''id1'' (Some 7) example_world =
        (Some (fst example_sign), snd example_sign) \<and>
      run [?hs] (fst example_sign, snd example_sign) = (fst ?Q1, snd ?Q1) \<and>
      \<not> closing (fst ?Q1) \<and> knownPort (fst ?Q1) = Some 1 \<and>
      step (fst ?Q1, snd ?Q1) ?sig = (fst ?Q2, snd ?Q2) \<and>
      run [] (fst ?Q2, snd ?Q2) = (fst ?Q2, snd ?Q2) \<and>
      (\<forall>ev\<in>set []. \<not> completes ?m (ev :: nat event))"
    using example_sign_opened example_sign_bound by (simp add: run_Nil)
  from approved_action_failure [THEN conjunct2, THEN mp, OF prem']
  have 2: "step (fst ?Q2, snd ?Q2) (Completed ?m ?slocked) =
       (fst ?Q2\<lparr>inflight := (inflight (fst ?Q2))[?m := Done (Inl (Error (Text ''locked'')))]\<rparr>, snd ?Q2)"
    by blast
  have len2: "length (inflight (fst ?Q2)) = 1"
    by (simp add: example_sign_def example_run_defs)
  have q2: "run [?hs, ?sig] example_sign = ?Q2"
    by (simp add: run_def del: step.simps)
  have qL: "run [?hs, ?sig, Completed 0 ?slocked] example_sign =
      step (fst ?Q2, snd ?Q2) (Completed ?m ?slocked)"
    by (simp only: m) (simp add: run_def del: step.simps)
  have k2: "(inflight (fst ?Q2))[?m := Done (Inl (Error (Text ''locked'')))] =
      [Done (Inl (Error (Text ''locked'')))]"
    using len2 by (simp only: m) (cases "inflight (fst ?Q2)", simp_all)
  have D: "run [?hs, ?sig, Completed 0 ?slocked] example_sign =
      (fst (run [?hs, ?sig] example_sign)\<lparr>inflight := [Done (Inl (Error (Text ''locked'')))]\<rparr>,
       snd (run [?hs, ?sig] example_sign))"
    by (simp only: qL q2 2 k2)
  from A B C D show ?thesis by blast
qed

subsection \<open>The preview of a sign request\<close>

text \<open>
  C8. For a sign request that passes validation, from an origin whose session is for
  the requested account (and whose network resolves), requestSign always opens the
  confirmation, and its payload carries the raw hex payload (without 0x) together
  with the preview. The preview is computed in order: if the payload matches the
  signed-message pattern, the value after the first two characters is decoded and
  its text is kept without its first and last character, and a decoding failure gives
  null; otherwise the payload is parsed as an operation, which is the preview only
  if it has at least one content (else the preview stays undefined), and a parse
  failure gives null. No failure of either decoder fails the flow.
\<close>

theorem sign_preview_fallback:
  assumes valid: "isAddressValid env (sign_sourcePkh req)" "HEX_PATTERN (payload (strip_0x req))"
    and session: "stored w origin = Some d" "sign_sourcePkh req = pkh d"
    and resolves: "getNetworkRPC (NETWORKS env) (network d) = Inr rpc"
  shows "(\<exists>(c0 :: 'p confirmation) w0. requestSign env origin req id' winId w = (Some c0, w0) \<and>
            cpayload c0 =
              SignPayload origin rpc (appMeta d) (sign_sourcePkh req) (payload (strip_0x req))
                (build_preview env (payload (strip_0x req))) \<and>
            \<not> closing c0 \<and> promise w0 = Pending \<and>
            log w0 = log w @ [StorageGet, WindowsCreate id', SetTimeout AUTODECLINE_AFTER]) \<and>
         (TEZ_MSG_SIGN_PATTERN p \<and> emitMicheline env (drop 2 p) = Inr t \<longrightarrow>
            build_preview env p = Micheline (butlast (tl t))) \<and>
         (TEZ_MSG_SIGN_PATTERN p \<and> emitMicheline env (drop 2 p) = Inl e \<longrightarrow>
            build_preview env p = Null) \<and>
         (\<not> TEZ_MSG_SIGN_PATTERN p \<and> parse env p = Inr parsed \<and> contents parsed \<noteq> [] \<longrightarrow>
            build_preview env p = Parsed parsed) \<and>
         (\<not> TEZ_MSG_SIGN_PATTERN p \<and> parse env p = Inr parsed \<and> contents parsed = [] \<longrightarrow>
            build_preview env p = Undefined) \<and>
         (\<not> TEZ_MSG_SIGN_PATTERN p \<and> parse env p = Inl e \<longrightarrow> build_preview env p = Null)"
proof -
  let ?c = "fst (requestConfirm id'
               (SignPayload origin rpc (appMeta d) (sign_sourcePkh req) (payload (strip_0x req))
                  (build_preview env (payload (strip_0x req))))
               decline_NotGranted (sign_handleIntercomRequest id' d (payload (strip_0x req))) winId
               ((emit StorageGet w)\<lparr>promise := Pending\<rparr>)) :: 'p confirmation"
  let ?w = "snd (requestConfirm id'
               (SignPayload origin rpc (appMeta d) (sign_sourcePkh req) (payload (strip_0x req))
                  (build_preview env (payload (strip_0x req))))
               decline_NotGranted (sign_handleIntercomRequest id' d (payload (strip_0x req))) winId
               ((emit StorageGet w)\<lparr>promise := Pending\<rparr>) :: 'p confirmation \<times> world)"
  have 1: "requestSign env origin req id' winId w = (Some ?c, ?w)"
    using valid session resolves
    by (simp add: requestSign_def getDApp_eq strip_0x_sourcePkh split: prod.splits)
  have 2: "cpayload ?c =
              SignPayload origin rpc (appMeta d) (sign_sourcePkh req) (payload (strip_0x req))
                (build_preview env (payload (strip_0x req)))"
    by (simp add: requestConfirm_def)
  have 3: "\<not> closing ?c" by (simp add: requestConfirm_def)
  have 4: "promise ?w = Pending" by (simp add: requestConfirm_def emit_def)
  have 5: "log ?w = log w @ [StorageGet, WindowsCreate id', SetTimeout AUTODECLINE_AFTER]"
    by (simp add: requestConfirm_def emit_def)
  have "\<exists>(c0 :: 'p confirmation) w0. requestSign env origin req id' winId w = (Some c0, w0) \<and>
            cpayload c0 =
              SignPayload origin rpc (appMeta d) (sign_sourcePkh req) (payload (strip_0x req))
                (build_preview env (payload (strip_0x req))) \<and>
            \<not> closing c0 \<and> promise w0 = Pending \<and>
            log w0 = log w @ [StorageGet, WindowsCreate id', SetTimeout AUTODECLINE_AFTER]"
    using 1 2 3 4 5 by (intro exI conjI)
  then show ?thesis
    by (simp add: build_preview_def slice_1_m1_def)
qed

theorem sign_preview_fallback_witness:
  "(\<exists>c0 w0. requestSign example_env ''dapp'' example_sign_request ''id1'' (Some 7) example_world =
              (Some (c0 :: nat confirmation), w0) \<and>
            cpayload c0 =
              SignPayload ''dapp'' ''https://main'' \<lparr>name = ''App''\<rparr> ''tz1a''
                ''0501000000084d657373616765'' Null) \<and>
   build_preview example_env
       ''05010000004254657a6f73205369676e6564204d6573736167653a206162'' = Micheline ''ab''"
proof -
  let ?p = "''0501000000084d657373616765''"
  let ?m = "''05010000004254657a6f73205369676e6564204d6573736167653a206162''"
  have v: "isAddressValid example_env (sign_sourcePkh example_sign_request)"
    by (simp add: example_env_def example_sign_request_def)
  have h: "HEX_PATTERN (payload (strip_0x example_sign_request))"
    using example_sign_payload by simp
  have s: "sign_sourcePkh example_sign_request = pkh example_session"
    by (simp add: example_sign_request_def example_session_def)
  have r: "getNetworkRPC (NETWORKS example_env) (network example_session) = Inr ''https://main''"
    by (simp add: example_env_def example_session_def)
  have np: "\<not> TEZ_MSG_SIGN_PATTERN ?p \<and> parse example_env ?p = Inl TypeError"
    using example_sign_payload by (simp add: example_env_def)
  have mp: "TEZ_MSG_SIGN_PATTERN ?m \<and> emitMicheline example_env (drop 2 ?m) = Inr ''(ab)''"
    by (simp add: TEZ_MSG_SIGN_PATTERN_def lower_hexdigit_def example_env_def)
  note T = sign_preview_fallback [OF v h example_stored s r, where id' = "''id1''" and winId = "Some 7"]
  have n: "build_preview example_env ?p = Null"
    using T [THEN conjunct2, THEN conjunct2, THEN conjunct2, THEN conjunct2, THEN conjunct2,
        rule_format, OF np] .
  have m: "build_preview example_env ?m = Micheline (butlast (tl ''(ab)''))"
    using T [THEN conjunct2, THEN conjunct1, rule_format, OF mp] .
  from T [THEN conjunct1] obtain c0 :: "nat confirmation" and w0 where
    "requestSign example_env ''dapp'' example_sign_request ''id1'' (Some 7) example_world = (Some c0, w0)"
    "cpayload c0 =
       SignPayload ''dapp'' ''https://main'' (appMeta example_session)
         (sign_sourcePkh example_sign_request) (payload (strip_0x example_sign_request))
         (build_preview example_env (payload (strip_0x example_sign_request)))"
    by blast
  with n example_sign_payload have "\<exists>c0 w0.
      requestSign example_env ''dapp'' example_sign_request ''id1'' (Some 7) example_world =
        (Some (c0 :: nat confirmation), w0) \<and>
      cpayload c0 =
        SignPayload ''dapp'' ''https://main'' \<lparr>name = ''App''\<rparr> ''tz1a'' ?p Null"
    by (auto simp: example_session_def example_sign_request_def)
  with m show ?thesis by simp
qed

end
